theory Spec2Isabelle
  imports Complex_Main "HOL-Library.Word"
begin

section \<open>The boundary to the graphics driver and the windowing library\<close>

text \<open>
  \<^verbatim>\<open>main.cpp\<close> is a client of OpenGL, GLEW, GLFW and the file system. None of them is
  part of the program, so they are a parameter of the model: an environment answers every
  external call from its own state. Calls are grouped by the C type of what they return.
  The program's state (\<open>world\<close>) holds the environment's state, the log of the external
  calls the program has made so far, each with its answer, and the text written to
  \<^verbatim>\<open>std::cout\<close> and \<^verbatim>\<open>std::cerr\<close>.
\<close>

unbundle bit_operations_syntax

type_synonym GLuint = "32 word"
type_synonym GLenum = "32 word"
type_synonym GLint = int
type_synonym window = nat

datatype bufdata = Floats "real list" | UInts "GLuint list"

datatype vcall =
    GlShaderSource GLuint string
  | GlCompileShader GLuint
  | GlfwWindowHint int int
  | GlfwTerminate
  | GlfwMakeContextCurrent window
  | GlfwSetFramebufferSizeCallback window
  | GlewExperimental GLuint
  | GlBindVertexArray GLuint
  | GlBindBuffer GLenum GLuint
  | GlBufferData GLenum nat bufdata GLenum
  | GlAttachShader GLuint GLuint
  | GlLinkProgram GLuint
  | GlUseProgram GLuint
  | GlEnableVertexAttribArray GLuint
  | GlVertexAttribPointer GLuint int GLenum GLuint int nat
  | GlClear GLuint
  | GlDrawElements GLenum int GLenum nat
  | GlfwSwapBuffers window
  | GlfwPollEvents
  | GlDeleteProgram GLuint
  | GlDeleteShader GLuint
  | GlDeleteBuffers GLuint
  | GlDeleteVertexArrays GLuint

datatype ucall =
    GlGetError
  | GlCreateShader GLenum
  | GlCreateProgram
  | GlGenVertexArrays
  | GlGenBuffers
  | GlewInit

datatype icall =
    GlGetShaderiv GLuint GLenum
  | GlGetAttribLocation GLuint string
  | GlfwInit
  | GlfwWindowShouldClose window

datatype scall =
    GlGetShaderInfoLog GLuint int
  | GlGetString GLenum
  | GlfwGetError
  | GlewGetErrorString GLenum

datatype event =
    EvVoid vcall
  | EvUInt ucall GLuint
  | EvInt icall int
  | EvStr scall string
  | EvWindow int int string "window option"

record 'e env =
  ext_void :: "vcall \<Rightarrow> 'e \<Rightarrow> 'e"
  ext_uint :: "ucall \<Rightarrow> 'e \<Rightarrow> GLuint \<times> 'e"
  ext_int :: "icall \<Rightarrow> 'e \<Rightarrow> int \<times> 'e"
  ext_str :: "scall \<Rightarrow> 'e \<Rightarrow> string \<times> 'e"
  ext_window :: "int \<Rightarrow> int \<Rightarrow> string \<Rightarrow> 'e \<Rightarrow> window option \<times> 'e"
  ext_file :: "string \<Rightarrow> string option"

record 'e world =
  st :: 'e
  calls :: "event list"
  cout :: string
  cerr :: string

definition call_void :: "'e env \<Rightarrow> vcall \<Rightarrow> 'e world \<Rightarrow> unit \<times> 'e world" where
  "call_void env c w = ((), w\<lparr>st := ext_void env c (st w), calls := calls w @ [EvVoid c]\<rparr>)"

definition call_uint :: "'e env \<Rightarrow> ucall \<Rightarrow> 'e world \<Rightarrow> GLuint \<times> 'e world" where
  "call_uint env c w =
     (let (r, s) = ext_uint env c (st w)
      in (r, w\<lparr>st := s, calls := calls w @ [EvUInt c r]\<rparr>))"

definition call_int :: "'e env \<Rightarrow> icall \<Rightarrow> 'e world \<Rightarrow> int \<times> 'e world" where
  "call_int env c w =
     (let (r, s) = ext_int env c (st w)
      in (r, w\<lparr>st := s, calls := calls w @ [EvInt c r]\<rparr>))"

definition call_str :: "'e env \<Rightarrow> scall \<Rightarrow> 'e world \<Rightarrow> string \<times> 'e world" where
  "call_str env c w =
     (let (r, s) = ext_str env c (st w)
      in (r, w\<lparr>st := s, calls := calls w @ [EvStr c r]\<rparr>))"

definition glfwCreateWindow ::
  "'e env \<Rightarrow> int \<Rightarrow> int \<Rightarrow> string \<Rightarrow> 'e world \<Rightarrow> window option \<times> 'e world" where
  "glfwCreateWindow env width height title w =
     (let (r, s) = ext_window env width height title (st w)
      in (r, w\<lparr>st := s, calls := calls w @ [EvWindow width height title r]\<rparr>))"

subsection \<open>Output streams\<close>

definition endl :: string where
  "endl = [CHR 0x0A]"

definition put_cout :: "string \<Rightarrow> 'e world \<Rightarrow> 'e world" where
  "put_cout s w = w\<lparr>cout := cout w @ s\<rparr>"

definition put_cerr :: "string \<Rightarrow> 'e world \<Rightarrow> 'e world" where
  "put_cerr s w = w\<lparr>cerr := cerr w @ s\<rparr>"

text \<open>What \<^verbatim>\<open>operator<<\<close> prints for an \<^verbatim>\<open>int\<close>: decimal digits, with a minus sign
  below zero.\<close>

definition digit_char :: "nat \<Rightarrow> char" where
  "digit_char d = ''0123456789'' ! d"

fun show_nat :: "nat \<Rightarrow> string" where
  "show_nat n = (if n < 10 then [digit_char n] else show_nat (n div 10) @ [digit_char (n mod 10)])"

definition show_int :: "int \<Rightarrow> string" where
  "show_int i = (if i < 0 then CHR ''-'' # show_nat (nat (- i)) else show_nat (nat i))"

subsection \<open>Constants of the OpenGL headers\<close>

definition GL_NO_ERROR :: GLenum where "GL_NO_ERROR = 0"
definition GL_INVALID_ENUM :: GLenum where "GL_INVALID_ENUM = 0x0500"
definition GL_INVALID_VALUE :: GLenum where "GL_INVALID_VALUE = 0x0501"
definition GL_INVALID_OPERATION :: GLenum where "GL_INVALID_OPERATION = 0x0502"
definition GL_OUT_OF_MEMORY :: GLenum where "GL_OUT_OF_MEMORY = 0x0505"
definition GL_INVALID_FRAMEBUFFER_OPERATION :: GLenum where
  "GL_INVALID_FRAMEBUFFER_OPERATION = 0x0506"
definition GL_CONTEXT_LOST :: GLenum where "GL_CONTEXT_LOST = 0x0507"

definition GL_INFO_LOG_LENGTH :: GLenum where "GL_INFO_LOG_LENGTH = 0x8B84"
definition GL_COMPILE_STATUS :: GLenum where "GL_COMPILE_STATUS = 0x8B81"
definition GL_VERTEX_SHADER :: GLenum where "GL_VERTEX_SHADER = 0x8B31"
definition GL_FRAGMENT_SHADER :: GLenum where "GL_FRAGMENT_SHADER = 0x8B30"
definition GL_ARRAY_BUFFER :: GLenum where "GL_ARRAY_BUFFER = 0x8892"
definition GL_ELEMENT_ARRAY_BUFFER :: GLenum where "GL_ELEMENT_ARRAY_BUFFER = 0x8893"
definition GL_STATIC_DRAW :: GLenum where "GL_STATIC_DRAW = 0x88E4"
definition GL_FLOAT :: GLenum where "GL_FLOAT = 0x1406"
definition GL_UNSIGNED_INT :: GLenum where "GL_UNSIGNED_INT = 0x1405"
definition GL_TRIANGLES :: GLenum where "GL_TRIANGLES = 0x0004"
definition GL_VERSION :: GLenum where "GL_VERSION = 0x1F02"
definition GL_COLOR_BUFFER_BIT :: GLuint where "GL_COLOR_BUFFER_BIT = 0x00004000"
definition GL_DEPTH_BUFFER_BIT :: GLuint where "GL_DEPTH_BUFFER_BIT = 0x00000100"
definition GL_TRUE :: GLuint where "GL_TRUE = 1"
definition GL_FALSE :: GLuint where "GL_FALSE = 0"
definition GLEW_OK :: GLenum where "GLEW_OK = 0"
definition GLFW_CONTEXT_VERSION_MAJOR :: int where "GLFW_CONTEXT_VERSION_MAJOR = 0x00022002"
definition GLFW_CONTEXT_VERSION_MINOR :: int where "GLFW_CONTEXT_VERSION_MINOR = 0x00022003"
definition GLFW_OPENGL_FORWARD_COMPAT :: int where "GLFW_OPENGL_FORWARD_COMPAT = 0x00022006"
definition GLFW_OPENGL_PROFILE :: int where "GLFW_OPENGL_PROFILE = 0x00022008"
definition GLFW_OPENGL_CORE_PROFILE :: int where "GLFW_OPENGL_CORE_PROFILE = 0x00032001"

section \<open>The error-reporting utility\<close>

text \<open>The \<^verbatim>\<open>switch\<close> of \<^verbatim>\<open>PrintOpenGLErrors\<close> (lines 16 to 39), case by case in the
  source's order.\<close>

definition ErrorString :: "GLenum \<Rightarrow> string" where
  "ErrorString Error =
     (if Error = GL_INVALID_ENUM then ''INVALID_ENUM''
      else if Error = GL_INVALID_VALUE then ''INVALID_VALUE''
      else if Error = GL_INVALID_OPERATION then ''INVALID_OPERATION''
      else if Error = GL_OUT_OF_MEMORY then ''OUT_OF_MEMORY''
      else if Error = GL_INVALID_FRAMEBUFFER_OPERATION then ''INVALID_FRAMEBUFFER_OPERATION''
      else if Error = GL_CONTEXT_LOST then ''CONTEXT_LOST''
      else ''UNKNOWN_ERROR'')"

definition PrintOpenGLErrors :: "'e env \<Rightarrow> string \<Rightarrow> string \<Rightarrow> int \<Rightarrow> 'e world \<Rightarrow> 'e world" where
  "PrintOpenGLErrors env Function File Line w =
     (let (Error, w1) = call_uint env GlGetError w
      in if Error \<noteq> GL_NO_ERROR
         then put_cerr (''OpenGL Error in '' @ File @ '' at line '' @ show_int Line
                 @ '' calling function '' @ Function @ '': '' @ ErrorString Error @ endl) w1
         else w1)"

section \<open>The checked-call macros\<close>

text \<open>
  The three macros of lines 44 to 58. \<open>DEBUG\<close> is the build switch (\<^verbatim>\<open>#ifdef _DEBUG\<close>;
  line 1 of the file defines it), \<open>xtext\<close> is the stringified argument \<^verbatim>\<open>#x\<close>, \<open>FILE\<close> and
  \<open>LINE\<close> are \<^verbatim>\<open>__FILE__\<close> and \<^verbatim>\<open>__LINE__\<close> at the place of use, and \<open>x\<close> is the wrapped
  expression: it changes the world and yields a value (what it returns, or what it stores
  through a pointer argument; \<open>()\<close> for a plain \<^verbatim>\<open>void\<close> call).
  In \<^verbatim>\<open>(PrintOpenGLErrors(...), (x))\<close> the comma operator evaluates its left operand first.
  \<^verbatim>\<open>CheckExistingErrors\<close> uses its argument for the label only.
\<close>

definition CheckedGLCall ::
  "bool \<Rightarrow> 'e env \<Rightarrow> string \<Rightarrow> string \<Rightarrow> int \<Rightarrow> ('e world \<Rightarrow> 'a \<times> 'e world)
     \<Rightarrow> 'e world \<Rightarrow> 'a \<times> 'e world" where
  "CheckedGLCall DEBUG env xtext FILE LINE x w =
     (if DEBUG
      then let w1 = PrintOpenGLErrors env (''>>BEFORE<< '' @ xtext) FILE LINE w;
               (r, w2) = x w1;
               w3 = PrintOpenGLErrors env xtext FILE LINE w2
           in (r, w3)
      else x w)"

definition CheckedGLResult ::
  "bool \<Rightarrow> 'e env \<Rightarrow> string \<Rightarrow> string \<Rightarrow> int \<Rightarrow> ('e world \<Rightarrow> 'a \<times> 'e world)
     \<Rightarrow> 'e world \<Rightarrow> 'a \<times> 'e world" where
  "CheckedGLResult DEBUG env xtext FILE LINE x w =
     (if DEBUG
      then let w1 = PrintOpenGLErrors env xtext FILE LINE w
           in x w1
      else x w)"

definition CheckExistingErrors ::
  "bool \<Rightarrow> 'e env \<Rightarrow> string \<Rightarrow> string \<Rightarrow> int \<Rightarrow> ('e world \<Rightarrow> 'a \<times> 'e world)
     \<Rightarrow> 'e world \<Rightarrow> 'e world" where
  "CheckExistingErrors DEBUG env xtext FILE LINE x w =
     (if DEBUG
      then PrintOpenGLErrors env (''>>BEFORE<< '' @ xtext) FILE LINE w
      else w)"

section \<open>Loading and compiling a shader\<close>

datatype exn = runtime_error string

text \<open>\<^verbatim>\<open>PrintShaderInfoLog\<close> takes the shader as a \<^verbatim>\<open>GLint\<close> and hands it back to the driver
  as a \<^verbatim>\<open>GLuint\<close>. The answer to \<^verbatim>\<open>glGetShaderiv\<close> is the value of the variable it
  writes, the answer to \<^verbatim>\<open>glGetShaderInfoLog\<close> the text in the buffer up to its
  terminating zero.\<close>

definition PrintShaderInfoLog :: "'e env \<Rightarrow> GLint \<Rightarrow> 'e world \<Rightarrow> 'e world" where
  "PrintShaderInfoLog env Shader w =
     (let (InfoLogLength, w1) = call_int env (GlGetShaderiv (word_of_int Shader) GL_INFO_LOG_LENGTH) w
      in if InfoLogLength > 0
         then let (InfoLog, w2) =
                    call_str env (GlGetShaderInfoLog (word_of_int Shader) InfoLogLength) w1
              in put_cout (''Shader Info Log:'' @ endl @ InfoLog @ endl) w2
         else w1)"

definition LoadShaderFromFile :: "'e env \<Rightarrow> string \<Rightarrow> exn + string" where
  "LoadShaderFromFile env path =
     (case ext_file env path of
        None \<Rightarrow> Inl (runtime_error (''Failed to open shader file: '' @ path))
      | Some text \<Rightarrow> Inr text)"

text \<open>\<^verbatim>\<open>c_str()\<close> with a null length array: the driver reads the text up to the first zero
  byte.\<close>

definition c_str :: "string \<Rightarrow> string" where
  "c_str s = takeWhile (\<lambda>c. c \<noteq> CHR 0x00) s"

definition CompileShader ::
  "'e env \<Rightarrow> string \<Rightarrow> GLenum \<Rightarrow> 'e world \<Rightarrow> (exn + GLuint) \<times> 'e world" where
  "CompileShader env path shaderType w =
     (case LoadShaderFromFile env path of
        Inl e \<Rightarrow> (Inl e, w)
      | Inr shaderSource \<Rightarrow>
          let (shader, w) = call_uint env (GlCreateShader shaderType) w;
              (u, w) = call_void env (GlShaderSource shader (c_str shaderSource)) w;
              (u, w) = call_void env (GlCompileShader shader) w;
              (success, w) = call_int env (GlGetShaderiv shader GL_COMPILE_STATUS) w
          in if success = 0
             then let (infoLog, w) = call_str env (GlGetShaderInfoLog shader 512) w;
                      w = PrintShaderInfoLog env (sint shader) w
                  in (Inl (runtime_error (''Shader compilation failed: '' @ infoLog)), w)
             else (Inr shader, w))"

section \<open>The program\<close>

text \<open>
  The render loop of lines 206 to 217. It runs until the windowing library reports the
  close flag, which may be never: a run that does not leave the loop is \<open>None\<close>.
\<close>

partial_function (option) render_loop ::
  "bool \<Rightarrow> 'e env \<Rightarrow> string \<Rightarrow> window \<Rightarrow> 'e world \<Rightarrow> 'e world option" where
  "render_loop DEBUG env FILE window w =
     (let (close, w) = call_int env (GlfwWindowShouldClose window) w
      in if close \<noteq> 0 then Some w
         else
           let (u, w) = CheckedGLCall DEBUG env
                          ''glClear(GL_COLOR_BUFFER_BIT | GL_DEPTH_BUFFER_BIT)'' FILE 209
                          (call_void env (GlClear (GL_COLOR_BUFFER_BIT OR GL_DEPTH_BUFFER_BIT))) w;
               (u, w) = CheckedGLCall DEBUG env
                          ''glDrawElements(GL_TRIANGLES, 3, GL_UNSIGNED_INT, 0)'' FILE 212
                          (call_void env (GlDrawElements GL_TRIANGLES 3 GL_UNSIGNED_INT 0)) w;
               (u, w) = call_void env (GlfwSwapBuffers window) w;
               (u, w) = call_void env GlfwPollEvents w
           in render_loop DEBUG env FILE window w)"

definition Vertices :: "real list" where
  "Vertices = [0, 1/2, 1/2, - (1/2), - (1/2), - (1/2)]"

definition Elements :: "GLuint list" where
  "Elements = [0, 1, 2]"

text \<open>
  \<^verbatim>\<open>main\<close>, statement by statement. The result is \<open>Inr status\<close> when \<^verbatim>\<open>main\<close> returns
  \<open>status\<close>, and \<open>Inl e\<close> when the exception \<open>e\<close> of \<^verbatim>\<open>CompileShader\<close> leaves \<^verbatim>\<open>main\<close>:
  nothing catches it, so no later statement runs. \<^verbatim>\<open>sizeof(Vertices)\<close> is six floats of four
  bytes, \<^verbatim>\<open>sizeof(Elements)\<close> three \<^verbatim>\<open>GLuint\<close> of four bytes. \<^verbatim>\<open>glfwGetError\<close> answers with
  the description it stores, \<^verbatim>\<open>PositionAttribute\<close> is a \<^verbatim>\<open>GLint\<close> converted to the
  \<^verbatim>\<open>GLuint\<close> index the two attribute calls take.
\<close>

definition main :: "bool \<Rightarrow> 'e env \<Rightarrow> string \<Rightarrow> 'e world \<Rightarrow> ((exn + int) \<times> 'e world) option" where
  "main DEBUG env FILE w =
     (let (ok, w) = call_int env GlfwInit w
      in if ok = 0
         then (let w = put_cerr (''Failed to initialize GLFW'' @ endl) w
               in Some (Inr (- 1), w))
         else
      (let (u, w) = call_void env (GlfwWindowHint GLFW_CONTEXT_VERSION_MAJOR 3) w;
          (u, w) = call_void env (GlfwWindowHint GLFW_CONTEXT_VERSION_MINOR 3) w;
          (u, w) = call_void env (GlfwWindowHint GLFW_OPENGL_PROFILE GLFW_OPENGL_CORE_PROFILE) w;
          (u, w) = call_void env (GlfwWindowHint GLFW_OPENGL_FORWARD_COMPAT (uint GL_TRUE)) w;
          (window, w) = glfwCreateWindow env 640 480 ''Modern OpenGL'' w
      in (case window of
           None \<Rightarrow>
             (let w = put_cerr (''Failed to create GLFW window'' @ endl) w;
                 (description, w) = call_str env GlfwGetError w;
                 w = put_cerr (''GLFW Error: '' @ description @ endl) w;
                 (u, w) = call_void env GlfwTerminate w
              in Some (Inr (- 1), w))
         | Some window \<Rightarrow>
      (let (u, w) = call_void env (GlfwMakeContextCurrent window) w;
          (u, w) = call_void env (GlfwSetFramebufferSizeCallback window) w;
          (u, w) = call_void env (GlewExperimental GL_TRUE) w;
          (err, w) = call_uint env GlewInit w
      in if GLEW_OK \<noteq> err
         then (let (msg, w) = call_str env (GlewGetErrorString err) w;
                   w = put_cerr (''GLEW Error: '' @ msg @ endl) w;
                   (u, w) = call_void env GlfwTerminate w
               in Some (Inr (- 1), w))
         else
      (let (version, w) = call_str env (GlGetString GL_VERSION) w;
          w = put_cout (''OpenGL Version: '' @ version @ endl) w;
          (VAO, w) = CheckedGLCall DEBUG env ''glGenVertexArrays(1, &VAO)'' FILE 172
                       (call_uint env GlGenVertexArrays) w;
          (u, w) = CheckedGLCall DEBUG env ''glBindVertexArray(VAO)'' FILE 173
                     (call_void env (GlBindVertexArray VAO)) w;
          (VBO, w) = CheckedGLCall DEBUG env ''glGenBuffers(1, &VBO)'' FILE 177
                       (call_uint env GlGenBuffers) w;
          (u, w) = CheckedGLCall DEBUG env ''glBindBuffer(GL_ARRAY_BUFFER, VBO)'' FILE 178
                     (call_void env (GlBindBuffer GL_ARRAY_BUFFER VBO)) w;
          (u, w) = CheckedGLCall DEBUG env
                     ''glBufferData(GL_ARRAY_BUFFER, sizeof(Vertices), Vertices, GL_STATIC_DRAW)''
                     FILE 179
                     (call_void env (GlBufferData GL_ARRAY_BUFFER 24 (Floats Vertices) GL_STATIC_DRAW)) w;
          (EBO, w) = CheckedGLCall DEBUG env ''glGenBuffers(1, &EBO)'' FILE 183
                       (call_uint env GlGenBuffers) w;
          (u, w) = CheckedGLCall DEBUG env ''glBindBuffer(GL_ELEMENT_ARRAY_BUFFER, EBO)'' FILE 184
                     (call_void env (GlBindBuffer GL_ELEMENT_ARRAY_BUFFER EBO)) w;
          (u, w) = CheckedGLCall DEBUG env
                     ''glBufferData(GL_ELEMENT_ARRAY_BUFFER, sizeof(Elements), Elements, GL_STATIC_DRAW)''
                     FILE 185
                     (call_void env
                        (GlBufferData GL_ELEMENT_ARRAY_BUFFER 12 (UInts Elements) GL_STATIC_DRAW)) w;
          (vs, w) = CompileShader env ''shaders/vertex.glsl'' GL_VERTEX_SHADER w
      in (case vs of
           Inl e \<Rightarrow> Some (Inl e, w)
         | Inr VertexShader \<Rightarrow>
      (let (fs, w) = CompileShader env ''shaders/fragment.glsl'' GL_FRAGMENT_SHADER w
      in (case fs of
           Inl e \<Rightarrow> Some (Inl e, w)
         | Inr FragmentShader \<Rightarrow>
      (let (ShaderProgram, w) = CheckedGLResult DEBUG env ''glCreateProgram()'' FILE 194
                                 (call_uint env GlCreateProgram) w;
          (u, w) = CheckedGLCall DEBUG env ''glAttachShader(ShaderProgram, VertexShader)'' FILE 195
                     (call_void env (GlAttachShader ShaderProgram VertexShader)) w;
          (u, w) = CheckedGLCall DEBUG env ''glAttachShader(ShaderProgram, FragmentShader)'' FILE 196
                     (call_void env (GlAttachShader ShaderProgram FragmentShader)) w;
          (u, w) = CheckedGLCall DEBUG env ''glLinkProgram(ShaderProgram)'' FILE 197
                     (call_void env (GlLinkProgram ShaderProgram)) w;
          (u, w) = CheckedGLCall DEBUG env ''glUseProgram(ShaderProgram)'' FILE 198
                     (call_void env (GlUseProgram ShaderProgram)) w;
          (PositionAttribute, w) =
             CheckedGLResult DEBUG env
               (''glGetAttribLocation(ShaderProgram, '' @ [CHR 0x22] @ ''position'' @ [CHR 0x22] @ '')'')
               FILE 201
               (call_int env (GlGetAttribLocation ShaderProgram ''position'')) w;
          (u, w) = CheckedGLCall DEBUG env ''glEnableVertexAttribArray(PositionAttribute)'' FILE 202
                     (call_void env (GlEnableVertexAttribArray (word_of_int PositionAttribute))) w;
          (u, w) = CheckedGLCall DEBUG env
                     ''glVertexAttribPointer(PositionAttribute, 2, GL_FLOAT, GL_FALSE, 0, 0)'' FILE 203
                     (call_void env
                        (GlVertexAttribPointer (word_of_int PositionAttribute) 2 GL_FLOAT GL_FALSE 0 0)) w
      in (case render_loop DEBUG env FILE window w of
           None \<Rightarrow> None
         | Some w \<Rightarrow>
      (let (u, w) = CheckedGLCall DEBUG env ''glDeleteProgram(ShaderProgram)'' FILE 220
                     (call_void env (GlDeleteProgram ShaderProgram)) w;
          (u, w) = CheckedGLCall DEBUG env ''glDeleteShader(FragmentShader)'' FILE 221
                     (call_void env (GlDeleteShader FragmentShader)) w;
          (u, w) = CheckedGLCall DEBUG env ''glDeleteShader(VertexShader)'' FILE 222
                     (call_void env (GlDeleteShader VertexShader)) w;
          (u, w) = CheckedGLCall DEBUG env ''glDeleteBuffers(1, &EBO)'' FILE 223
                     (call_void env (GlDeleteBuffers EBO)) w;
          (u, w) = CheckedGLCall DEBUG env ''glDeleteBuffers(1, &VBO)'' FILE 224
                     (call_void env (GlDeleteBuffers VBO)) w;
          (u, w) = CheckedGLCall DEBUG env ''glDeleteVertexArrays(1, &VAO)'' FILE 225
                     (call_void env (GlDeleteVertexArrays VAO)) w;
          (u, w) = call_void env GlfwTerminate w
      in Some (Inr 0, w))))))))))))"

section \<open>Vocabulary of the properties\<close>

text \<open>
  The events of the call log that create a GPU object, the events that release one, and
  the projection of a log to the life cycle of the GPU objects: its creations, its
  releases and the termination of the windowing library, in the order they happened.
\<close>

definition is_create :: "event \<Rightarrow> bool" where
  "is_create e =
     (case e of
        EvUInt c r \<Rightarrow>
          (case c of
             GlCreateShader t \<Rightarrow> True
           | GlCreateProgram \<Rightarrow> True
           | GlGenVertexArrays \<Rightarrow> True
           | GlGenBuffers \<Rightarrow> True
           | _ \<Rightarrow> False)
      | _ \<Rightarrow> False)"

definition is_release :: "event \<Rightarrow> bool" where
  "is_release e =
     (case e of
        EvVoid c \<Rightarrow>
          (case c of
             GlDeleteProgram p \<Rightarrow> True
           | GlDeleteShader s \<Rightarrow> True
           | GlDeleteBuffers b \<Rightarrow> True
           | GlDeleteVertexArrays a \<Rightarrow> True
           | _ \<Rightarrow> False)
      | _ \<Rightarrow> False)"

definition lifecycle :: "event list \<Rightarrow> event list" where
  "lifecycle es = filter (\<lambda>e. is_create e \<or> is_release e \<or> e = EvVoid GlfwTerminate) es"

section \<open>A simulated environment\<close>

text \<open>
  A small driver and windowing library to run the program on: error flags are queued and
  \<^verbatim>\<open>glGetError\<close> takes the oldest, object names are handed out in sequence, a shader
  compiles or not as \<open>compile_ok\<close> says and has the info log \<open>info_log\<close>, an attribute
  lookup in a program that is not linked raises \<^verbatim>\<open>GL_INVALID_OPERATION\<close>, and the window
  asks to close after \<open>frames\<close> rounds of event polling.
\<close>

record sim =
  pending :: "GLenum list"
  next_name :: GLuint
  glfw_ok :: bool
  window_ok :: bool
  glew_code :: GLenum
  compile_ok :: bool
  info_log :: string
  link_ok :: bool
  frames :: nat

definition sim_void :: "vcall \<Rightarrow> sim \<Rightarrow> sim" where
  "sim_void c s = (case c of GlfwPollEvents \<Rightarrow> s\<lparr>frames := frames s - 1\<rparr> | _ \<Rightarrow> s)"

definition sim_uint :: "ucall \<Rightarrow> sim \<Rightarrow> GLuint \<times> sim" where
  "sim_uint c s =
     (case c of
        GlGetError \<Rightarrow>
          (case pending s of [] \<Rightarrow> (GL_NO_ERROR, s) | e # es \<Rightarrow> (e, s\<lparr>pending := es\<rparr>))
      | GlewInit \<Rightarrow> (glew_code s, s)
      | _ \<Rightarrow> (next_name s, s\<lparr>next_name := next_name s + 1\<rparr>))"

definition sim_int :: "icall \<Rightarrow> sim \<Rightarrow> int \<times> sim" where
  "sim_int c s =
     (case c of
        GlGetShaderiv sh pname \<Rightarrow>
          (if pname = GL_COMPILE_STATUS then (if compile_ok s then 1 else 0, s)
           else if pname = GL_INFO_LOG_LENGTH
           then (if info_log s = [] then 0 else int (length (info_log s)) + 1, s)
           else (0, s))
      | GlGetAttribLocation p n \<Rightarrow>
          (if link_ok s then (0, s) else (- 1, s\<lparr>pending := pending s @ [GL_INVALID_OPERATION]\<rparr>))
      | GlfwInit \<Rightarrow> (if glfw_ok s then 1 else 0, s)
      | GlfwWindowShouldClose win \<Rightarrow> (if frames s = 0 then 1 else 0, s))"

definition sim_str :: "scall \<Rightarrow> sim \<Rightarrow> string \<times> sim" where
  "sim_str c s =
     (case c of
        GlGetShaderInfoLog sh n \<Rightarrow> (take (nat (n - 1)) (info_log s), s)
      | GlGetString n \<Rightarrow> (''3.3'', s)
      | GlfwGetError \<Rightarrow> (''no display'', s)
      | GlewGetErrorString e \<Rightarrow> (''Missing GL version'', s))"

definition sim_window :: "int \<Rightarrow> int \<Rightarrow> string \<Rightarrow> sim \<Rightarrow> window option \<times> sim" where
  "sim_window width height title s = (if window_ok s then (Some 1, s) else (None, s))"

definition sim_file :: "string \<Rightarrow> string option" where
  "sim_file path =
     (if path = ''shaders/vertex.glsl'' then Some ''void main() { gl_Position = vec4(0); }''
      else if path = ''shaders/fragment.glsl'' then Some ''void main() { }''
      else None)"

definition sim_env :: "sim env" where
  "sim_env = \<lparr>ext_void = sim_void, ext_uint = sim_uint, ext_int = sim_int, ext_str = sim_str,
               ext_window = sim_window, ext_file = sim_file\<rparr>"

definition sim_start :: sim where
  "sim_start = \<lparr>pending = [], next_name = 1, glfw_ok = True, window_ok = True,
                 glew_code = GLEW_OK, compile_ok = True, info_log = [], link_ok = True,
                 frames = 1\<rparr>"

definition start :: "'e \<Rightarrow> 'e world" where
  "start s = \<lparr>st = s, calls = [], cout = [], cerr = []\<rparr>"

section \<open>Facts about the call log and the output streams\<close>

declare show_nat.simps [simp del]

lemmas gl_error_codes =
  GL_NO_ERROR_def GL_INVALID_ENUM_def GL_INVALID_VALUE_def GL_INVALID_OPERATION_def
  GL_OUT_OF_MEMORY_def GL_INVALID_FRAMEBUFFER_OPERATION_def GL_CONTEXT_LOST_def

lemmas sim_defs =
  sim_env_def sim_void_def sim_uint_def sim_int_def sim_str_def sim_window_def sim_file_def
  sim_start_def start_def GL_COMPILE_STATUS_def GL_INFO_LOG_LENGTH_def GLEW_OK_def

lemmas call_defs = call_void_def call_uint_def call_int_def call_str_def glfwCreateWindow_def

lemmas show_defs = show_int_def show_nat.simps digit_char_def endl_def

lemma call_void_log:
  "call_void env c w = (u, w') \<Longrightarrow>
     calls w' = calls w @ [EvVoid c] \<and> cout w' = cout w \<and> cerr w' = cerr w"
  by (auto simp: call_void_def)

lemma call_uint_log:
  "call_uint env c w = (r, w') \<Longrightarrow>
     calls w' = calls w @ [EvUInt c r] \<and> cout w' = cout w \<and> cerr w' = cerr w"
  by (auto simp: call_uint_def split: prod.splits)

lemma call_int_log:
  "call_int env c w = (r, w') \<Longrightarrow>
     calls w' = calls w @ [EvInt c r] \<and> cout w' = cout w \<and> cerr w' = cerr w"
  by (auto simp: call_int_def split: prod.splits)

lemma call_str_log:
  "call_str env c w = (r, w') \<Longrightarrow>
     calls w' = calls w @ [EvStr c r] \<and> cout w' = cout w \<and> cerr w' = cerr w"
  by (auto simp: call_str_def split: prod.splits)

lemma glfwCreateWindow_log:
  "glfwCreateWindow env a b t w = (r, w') \<Longrightarrow>
     calls w' = calls w @ [EvWindow a b t r] \<and> cout w' = cout w \<and> cerr w' = cerr w"
  by (auto simp: glfwCreateWindow_def split: prod.splits)

lemma PrintShaderInfoLog_log:
  assumes "call_int env (GlGetShaderiv (word_of_int Shader) GL_INFO_LOG_LENGTH) w = (n, w1)"
  shows "calls (PrintShaderInfoLog env Shader w) =
           calls w @ EvInt (GlGetShaderiv (word_of_int Shader) GL_INFO_LOG_LENGTH) n #
             (if n > 0
              then [EvStr (GlGetShaderInfoLog (word_of_int Shader) n)
                      (fst (call_str env (GlGetShaderInfoLog (word_of_int Shader) n) w1))]
              else [])"
    and "cerr (PrintShaderInfoLog env Shader w) = cerr w"
  using assms call_int_log[OF assms]
  by (auto simp: PrintShaderInfoLog_def put_cout_def split: prod.splits dest!: call_str_log)

lemma CompileShader_failure:
  assumes "ext_file env path = Some src"
    and "call_uint env (GlCreateShader shaderType) w = (shader, w1)"
    and "call_void env (GlShaderSource shader (c_str src)) w1 = (u1, w2)"
    and "call_void env (GlCompileShader shader) w2 = (u2, w3)"
    and "call_int env (GlGetShaderiv shader GL_COMPILE_STATUS) w3 = (0, w4)"
    and "call_str env (GlGetShaderInfoLog shader 512) w4 = (infoLog, w5)"
  shows "CompileShader env path shaderType w =
           (Inl (runtime_error (''Shader compilation failed: '' @ infoLog)),
            PrintShaderInfoLog env (sint shader) w5)"
  using assms by (simp add: CompileShader_def LoadShaderFromFile_def)

lemma lifecycle_append: "lifecycle (xs @ ys) = lifecycle xs @ lifecycle ys"
  by (simp add: lifecycle_def)

lemma lifecycle_silent:
  "lifecycle [EvInt ci ri] = []"
  "lifecycle [EvStr cs rs] = []"
  "lifecycle [EvWindow a b t ro] = []"
  "lifecycle [EvUInt GlGetError e] = []"
  by (simp_all add: lifecycle_def is_create_def is_release_def)

lemma PrintOpenGLErrors_log:
  "\<exists>e. calls (PrintOpenGLErrors env Function File Line w) = calls w @ [EvUInt GlGetError e]"
  "cout (PrintOpenGLErrors env Function File Line w) = cout w"
  by (auto simp: PrintOpenGLErrors_def put_cerr_def split: prod.splits dest!: call_uint_log)

lemma PrintOpenGLErrors_lifecycle:
  "lifecycle (calls (PrintOpenGLErrors env Function File Line w)) = lifecycle (calls w)"
proof -
  obtain e where "calls (PrintOpenGLErrors env Function File Line w) = calls w @ [EvUInt GlGetError e]"
    using PrintOpenGLErrors_log(1) by blast
  then show ?thesis
    by (simp add: lifecycle_def is_create_def is_release_def)
qed

lemma CheckedGLCall_void_lifecycle:
  assumes "CheckedGLCall DEBUG env xtext FILE LINE (call_void env c) w = (u, w')"
  shows "lifecycle (calls w') = lifecycle (calls w) @ lifecycle [EvVoid c]"
  using assms
  by (auto simp: CheckedGLCall_def Let_def PrintOpenGLErrors_lifecycle lifecycle_append
      split: if_splits prod.splits dest!: call_void_log)

lemma CheckedGLCall_uint_lifecycle:
  assumes "CheckedGLCall DEBUG env xtext FILE LINE (call_uint env c) w = (r, w')"
  shows "lifecycle (calls w') = lifecycle (calls w) @ lifecycle [EvUInt c r]"
  using assms
  by (auto simp: CheckedGLCall_def Let_def PrintOpenGLErrors_lifecycle lifecycle_append
      split: if_splits prod.splits dest!: call_uint_log)

lemma CheckedGLResult_uint_lifecycle:
  assumes "CheckedGLResult DEBUG env xtext FILE LINE (call_uint env c) w = (r, w')"
  shows "lifecycle (calls w') = lifecycle (calls w) @ lifecycle [EvUInt c r]"
  using assms
  by (auto simp: CheckedGLResult_def Let_def PrintOpenGLErrors_lifecycle lifecycle_append
      split: if_splits prod.splits dest!: call_uint_log)

lemma CheckedGLResult_int_lifecycle:
  assumes "CheckedGLResult DEBUG env xtext FILE LINE (call_int env c) w = (r, w')"
  shows "lifecycle (calls w') = lifecycle (calls w)"
  using assms
  by (auto simp: CheckedGLResult_def Let_def PrintOpenGLErrors_lifecycle lifecycle_append
        lifecycle_silent
      split: if_splits prod.splits dest!: call_int_log)

lemma CompileShader_lifecycle:
  assumes "CompileShader env path shaderType w = (Inr shader, w')"
  shows "lifecycle (calls w') = lifecycle (calls w) @ [EvUInt (GlCreateShader shaderType) shader]"
  using assms
  by (auto simp: CompileShader_def Let_def lifecycle_append lifecycle_def is_create_def is_release_def
      split: sum.splits if_splits prod.splits
      dest!: call_uint_log call_void_log call_int_log)

lemma put_calls:
  "calls (put_cout s w) = calls w"
  "calls (put_cerr s w) = calls w"
  by (simp_all add: put_cout_def put_cerr_def)

lemma lifecycle_list:
  "lifecycle [] = []"
  "lifecycle (e # es) =
     (if is_create e \<or> is_release e \<or> e = EvVoid GlfwTerminate then e # lifecycle es
      else lifecycle es)"
  by (simp_all add: lifecycle_def)

lemma render_loop_lifecycle:
  assumes "render_loop DEBUG env FILE window w = Some w'"
  shows "lifecycle (calls w') = lifecycle (calls w)"
proof (rule render_loop.raw_induct
    [where P = "\<lambda>D e F win v v'. lifecycle (calls v') = lifecycle (calls v)", OF _ assms])
  fix loop :: "bool \<Rightarrow> 'a env \<Rightarrow> string \<Rightarrow> window \<Rightarrow> 'a world \<Rightarrow> 'a world option"
  fix DEBUG env FILE window w w'
  assume IH: "\<And>D e F win v v'. loop D e F win v = Some v' \<Longrightarrow>
                lifecycle (calls v') = lifecycle (calls v)"
  assume step:
    "(let (close, w) = call_int env (GlfwWindowShouldClose window) w
      in if close \<noteq> 0 then Some w
         else
           let (u, w) = CheckedGLCall DEBUG env
                          ''glClear(GL_COLOR_BUFFER_BIT | GL_DEPTH_BUFFER_BIT)'' FILE 209
                          (call_void env (GlClear (GL_COLOR_BUFFER_BIT OR GL_DEPTH_BUFFER_BIT))) w;
               (u, w) = CheckedGLCall DEBUG env
                          ''glDrawElements(GL_TRIANGLES, 3, GL_UNSIGNED_INT, 0)'' FILE 212
                          (call_void env (GlDrawElements GL_TRIANGLES 3 GL_UNSIGNED_INT 0)) w;
               (u, w) = call_void env (GlfwSwapBuffers window) w;
               (u, w) = call_void env GlfwPollEvents w
           in loop DEBUG env FILE window w) = Some w'"
  obtain close w1 where c: "call_int env (GlfwWindowShouldClose window) w = (close, w1)"
    by (cases "call_int env (GlfwWindowShouldClose window) w")
  have l1: "lifecycle (calls w1) = lifecycle (calls w)"
    using call_int_log[OF c] by (simp add: lifecycle_append lifecycle_silent)
  show "lifecycle (calls w') = lifecycle (calls w)"
  proof (cases "close = 0")
    case False
    with step c have "w' = w1" by simp
    with l1 show ?thesis by simp
  next
    case True
    obtain u2 w2 where s2: "CheckedGLCall DEBUG env
                          ''glClear(GL_COLOR_BUFFER_BIT | GL_DEPTH_BUFFER_BIT)'' FILE 209
                          (call_void env (GlClear (GL_COLOR_BUFFER_BIT OR GL_DEPTH_BUFFER_BIT))) w1 = (u2, w2)"
      by (cases "CheckedGLCall DEBUG env
                          ''glClear(GL_COLOR_BUFFER_BIT | GL_DEPTH_BUFFER_BIT)'' FILE 209
                          (call_void env (GlClear (GL_COLOR_BUFFER_BIT OR GL_DEPTH_BUFFER_BIT))) w1")
    obtain u3 w3 where s3: "CheckedGLCall DEBUG env
                          ''glDrawElements(GL_TRIANGLES, 3, GL_UNSIGNED_INT, 0)'' FILE 212
                          (call_void env (GlDrawElements GL_TRIANGLES 3 GL_UNSIGNED_INT 0)) w2 = (u3, w3)"
      by (cases "CheckedGLCall DEBUG env
                          ''glDrawElements(GL_TRIANGLES, 3, GL_UNSIGNED_INT, 0)'' FILE 212
                          (call_void env (GlDrawElements GL_TRIANGLES 3 GL_UNSIGNED_INT 0)) w2")
    obtain u4 w4 where s4: "call_void env (GlfwSwapBuffers window) w3 = (u4, w4)"
      by (cases "call_void env (GlfwSwapBuffers window) w3")
    obtain u5 w5 where s5: "call_void env GlfwPollEvents w4 = (u5, w5)"
      by (cases "call_void env GlfwPollEvents w4")
    have "loop DEBUG env FILE window w5 = Some w'"
      using step c True s2 s3 s4 s5 by (simp add: Let_def)
    then have "lifecycle (calls w') = lifecycle (calls w5)"
      by (rule IH)
    also have "\<dots> = lifecycle (calls w1)"
      using CheckedGLCall_void_lifecycle[OF s2] CheckedGLCall_void_lifecycle[OF s3]
        call_void_log[OF s4] call_void_log[OF s5]
      by (simp add: lifecycle_append lifecycle_list is_release_def is_create_def)
    finally show ?thesis using l1 by simp
  qed
qed

text \<open>
  Rules for running the program on a given world: each defining equation, restricted to a
  world written out as a record, so that a statement is rewritten only once the world it
  starts from is known.
\<close>

lemmas step_rules =
  call_void_def [of _ _ "\<lparr>st = s, calls = cs, cout = co, cerr = ce\<rparr>" for s cs co ce]
  call_uint_def [of _ _ "\<lparr>st = s, calls = cs, cout = co, cerr = ce\<rparr>" for s cs co ce]
  call_int_def [of _ _ "\<lparr>st = s, calls = cs, cout = co, cerr = ce\<rparr>" for s cs co ce]
  call_str_def [of _ _ "\<lparr>st = s, calls = cs, cout = co, cerr = ce\<rparr>" for s cs co ce]
  glfwCreateWindow_def [of _ _ _ _ "\<lparr>st = s, calls = cs, cout = co, cerr = ce\<rparr>" for s cs co ce]
  put_cout_def [of _ "\<lparr>st = s, calls = cs, cout = co, cerr = ce\<rparr>" for s cs co ce]
  put_cerr_def [of _ "\<lparr>st = s, calls = cs, cout = co, cerr = ce\<rparr>" for s cs co ce]
  PrintOpenGLErrors_def [of _ _ _ _ "\<lparr>st = s, calls = cs, cout = co, cerr = ce\<rparr>" for s cs co ce]
  CheckedGLCall_def [of _ _ _ _ _ _ "\<lparr>st = s, calls = cs, cout = co, cerr = ce\<rparr>" for s cs co ce]
  CheckedGLResult_def [of _ _ _ _ _ _ "\<lparr>st = s, calls = cs, cout = co, cerr = ce\<rparr>" for s cs co ce]
  CheckExistingErrors_def [of _ _ _ _ _ _ "\<lparr>st = s, calls = cs, cout = co, cerr = ce\<rparr>" for s cs co ce]
  PrintShaderInfoLog_def [of _ _ "\<lparr>st = s, calls = cs, cout = co, cerr = ce\<rparr>" for s cs co ce]
  CompileShader_def [of _ _ _ "\<lparr>st = s, calls = cs, cout = co, cerr = ce\<rparr>" for s cs co ce]
  render_loop.simps [of _ _ _ _ "\<lparr>st = s, calls = cs, cout = co, cerr = ce\<rparr>" for s cs co ce]

lemmas run_rules =
  step_rules
  main_def [of _ _ _ "\<lparr>st = s, calls = cs, cout = co, cerr = ce\<rparr>" for s cs co ce]

lemmas run_aux =
  ErrorString_def sim_defs gl_error_codes LoadShaderFromFile_def c_str_def Let_def show_defs

lemmas run_congs = let_weak_cong prod.case_cong_weak option.case_cong_weak sum.case_cong_weak

section \<open>Runs of the program on the simulated environment\<close>

lemma run_glfw_fails:
  "main True sim_env ''main.cpp'' (start (sim_start\<lparr>glfw_ok := False\<rparr>)) =
     Some (Inr (- 1),
           \<lparr>st = sim_start\<lparr>glfw_ok := False\<rparr>,
              calls = [EvInt GlfwInit 0],
              cout = [],
              cerr = ''Failed to initialize GLFW'' @ endl\<rparr>)"
  by (simp add: run_rules run_aux cong: run_congs)

lemma run_window_fails:
  "main True sim_env ''main.cpp'' (start (sim_start\<lparr>window_ok := False\<rparr>)) =
     Some (Inr (- 1),
           \<lparr>st = sim_start\<lparr>window_ok := False\<rparr>,
              calls = [EvInt GlfwInit 1,
                       EvVoid (GlfwWindowHint GLFW_CONTEXT_VERSION_MAJOR 3),
                       EvVoid (GlfwWindowHint GLFW_CONTEXT_VERSION_MINOR 3),
                       EvVoid (GlfwWindowHint GLFW_OPENGL_PROFILE GLFW_OPENGL_CORE_PROFILE),
                       EvVoid (GlfwWindowHint GLFW_OPENGL_FORWARD_COMPAT (uint GL_TRUE)),
                       EvWindow 640 480 ''Modern OpenGL'' None,
                       EvStr GlfwGetError ''no display'',
                       EvVoid GlfwTerminate],
              cout = [],
              cerr = ''Failed to create GLFW window'' @ endl @ ''GLFW Error: no display'' @ endl\<rparr>)"
  by (simp add: run_rules run_aux cong: run_congs)

lemma run_glew_fails:
  "\<exists>w'. main True sim_env ''main.cpp'' (start (sim_start\<lparr>glew_code := 1\<rparr>)) = Some (Inr (- 1), w')"
  by (simp add: run_rules run_aux cong: run_congs)

lemma run_to_the_end:
  "\<exists>w'. main True sim_env ''main.cpp'' (start sim_start) = Some (Inr 0, w')"
  by (simp add: run_rules run_aux cong: run_congs)

text \<open>
  What \<^verbatim>\<open>main\<close> does once the windowing library, the window and the extension loader
  are up: it fails with the exception of the first shader that does not compile, stays in
  the render loop if the loop never ends, and returns 0 otherwise.
\<close>

lemma main_continues:
  assumes "call_int env GlfwInit w = (ok, w1)" and "ok \<noteq> 0"
    and "call_void env (GlfwWindowHint GLFW_CONTEXT_VERSION_MAJOR 3) w1 = (u2, w2)"
    and "call_void env (GlfwWindowHint GLFW_CONTEXT_VERSION_MINOR 3) w2 = (u3, w3)"
    and "call_void env (GlfwWindowHint GLFW_OPENGL_PROFILE GLFW_OPENGL_CORE_PROFILE) w3 = (u4, w4)"
    and "call_void env (GlfwWindowHint GLFW_OPENGL_FORWARD_COMPAT (uint GL_TRUE)) w4 = (u5, w5)"
    and "glfwCreateWindow env 640 480 ''Modern OpenGL'' w5 = (Some win, w6)"
    and "call_void env (GlfwMakeContextCurrent win) w6 = (u7, w7)"
    and "call_void env (GlfwSetFramebufferSizeCallback win) w7 = (u8, w8)"
    and "call_void env (GlewExperimental GL_TRUE) w8 = (u9, w9)"
    and "call_uint env GlewInit w9 = (GLEW_OK, w10)"
  shows
"      (let (version, w11) = call_str env (GlGetString GL_VERSION) w10;
          w12 = put_cout (''OpenGL Version: '' @ version @ endl) w11;
          (VAO, w13) = CheckedGLCall DEBUG env ''glGenVertexArrays(1, &VAO)'' FILE 172
                       (call_uint env GlGenVertexArrays) w12;
          (u, w14) = CheckedGLCall DEBUG env ''glBindVertexArray(VAO)'' FILE 173
                     (call_void env (GlBindVertexArray VAO)) w13;
          (VBO, w15) = CheckedGLCall DEBUG env ''glGenBuffers(1, &VBO)'' FILE 177
                       (call_uint env GlGenBuffers) w14;
          (u, w16) = CheckedGLCall DEBUG env ''glBindBuffer(GL_ARRAY_BUFFER, VBO)'' FILE 178
                     (call_void env (GlBindBuffer GL_ARRAY_BUFFER VBO)) w15;
          (u, w17) = CheckedGLCall DEBUG env
                     ''glBufferData(GL_ARRAY_BUFFER, sizeof(Vertices), Vertices, GL_STATIC_DRAW)''
                     FILE 179
                     (call_void env (GlBufferData GL_ARRAY_BUFFER 24 (Floats Vertices) GL_STATIC_DRAW)) w16;
          (EBO, w18) = CheckedGLCall DEBUG env ''glGenBuffers(1, &EBO)'' FILE 183
                       (call_uint env GlGenBuffers) w17;
          (u, w19) = CheckedGLCall DEBUG env ''glBindBuffer(GL_ELEMENT_ARRAY_BUFFER, EBO)'' FILE 184
                     (call_void env (GlBindBuffer GL_ELEMENT_ARRAY_BUFFER EBO)) w18;
          (u, w20) = CheckedGLCall DEBUG env
                     ''glBufferData(GL_ELEMENT_ARRAY_BUFFER, sizeof(Elements), Elements, GL_STATIC_DRAW)''
                     FILE 185
                     (call_void env
                        (GlBufferData GL_ELEMENT_ARRAY_BUFFER 12 (UInts Elements) GL_STATIC_DRAW)) w19;
          (vs, w21) = CompileShader env ''shaders/vertex.glsl'' GL_VERTEX_SHADER w20
      in (case vs of
           Inl e \<Rightarrow> main DEBUG env FILE w = Some (Inl e, w21)
         | Inr VertexShader \<Rightarrow>
      (let (fs, w22) = CompileShader env ''shaders/fragment.glsl'' GL_FRAGMENT_SHADER w21
      in (case fs of
           Inl e \<Rightarrow> main DEBUG env FILE w = Some (Inl e, w22)
         | Inr FragmentShader \<Rightarrow>
      (let (ShaderProgram, w23) = CheckedGLResult DEBUG env ''glCreateProgram()'' FILE 194
                                 (call_uint env GlCreateProgram) w22;
          (u, w24) = CheckedGLCall DEBUG env ''glAttachShader(ShaderProgram, VertexShader)'' FILE 195
                     (call_void env (GlAttachShader ShaderProgram VertexShader)) w23;
          (u, w25) = CheckedGLCall DEBUG env ''glAttachShader(ShaderProgram, FragmentShader)'' FILE 196
                     (call_void env (GlAttachShader ShaderProgram FragmentShader)) w24;
          (u, w26) = CheckedGLCall DEBUG env ''glLinkProgram(ShaderProgram)'' FILE 197
                     (call_void env (GlLinkProgram ShaderProgram)) w25;
          (u, w27) = CheckedGLCall DEBUG env ''glUseProgram(ShaderProgram)'' FILE 198
                     (call_void env (GlUseProgram ShaderProgram)) w26;
          (PositionAttribute, w28) =
             CheckedGLResult DEBUG env
               (''glGetAttribLocation(ShaderProgram, '' @ [CHR 0x22] @ ''position'' @ [CHR 0x22] @ '')'')
               FILE 201
               (call_int env (GlGetAttribLocation ShaderProgram ''position'')) w27;
          (u, w29) = CheckedGLCall DEBUG env ''glEnableVertexAttribArray(PositionAttribute)'' FILE 202
                     (call_void env (GlEnableVertexAttribArray (word_of_int PositionAttribute))) w28;
          (u, w30) = CheckedGLCall DEBUG env
                     ''glVertexAttribPointer(PositionAttribute, 2, GL_FLOAT, GL_FALSE, 0, 0)'' FILE 203
                     (call_void env
                        (GlVertexAttribPointer (word_of_int PositionAttribute) 2 GL_FLOAT GL_FALSE 0 0)) w29
      in (case render_loop DEBUG env FILE win w30 of
           None \<Rightarrow> main DEBUG env FILE w = None
         | Some w31 \<Rightarrow> (\<exists>w'. main DEBUG env FILE w = Some (Inr 0, w'))))))))"
  using assms
  by (simp add: main_def Let_def split: prod.splits sum.splits option.splits)

section \<open>Properties of the error-reporting utility\<close>

text \<open>
  Claim C1. Every call of \<^verbatim>\<open>PrintOpenGLErrors\<close> queries the error flag once. If the answer
  is \<^verbatim>\<open>GL_NO_ERROR\<close>, the call does nothing more: the world is the one the query left,
  and neither stream has changed. Otherwise it appends exactly one line to
  \<^verbatim>\<open>std::cerr\<close>, made of the file, the line, the call-site label and the name of the
  error; the six codes of the \<^verbatim>\<open>switch\<close> have their own names and every other code is
  \<^verbatim>\<open>UNKNOWN_ERROR\<close>.
\<close>

theorem PrintOpenGLErrors_reports:
  assumes q: "call_uint env GlGetError w = (Error, w1)"
  shows "(Error = GL_NO_ERROR \<longrightarrow>
            PrintOpenGLErrors env Function File Line w = w1 \<and>
            cout w1 = cout w \<and> cerr w1 = cerr w) \<and>
         (Error \<noteq> GL_NO_ERROR \<longrightarrow>
            (\<exists>label.
               PrintOpenGLErrors env Function File Line w =
                 w1\<lparr>cerr := cerr w @ ''OpenGL Error in '' @ File @ '' at line '' @ show_int Line
                        @ '' calling function '' @ Function @ '': '' @ label @ endl\<rparr> \<and>
               cout w1 = cout w \<and>
               (Error = GL_INVALID_ENUM \<longrightarrow> label = ''INVALID_ENUM'') \<and>
               (Error = GL_INVALID_VALUE \<longrightarrow> label = ''INVALID_VALUE'') \<and>
               (Error = GL_INVALID_OPERATION \<longrightarrow> label = ''INVALID_OPERATION'') \<and>
               (Error = GL_OUT_OF_MEMORY \<longrightarrow> label = ''OUT_OF_MEMORY'') \<and>
               (Error = GL_INVALID_FRAMEBUFFER_OPERATION \<longrightarrow>
                  label = ''INVALID_FRAMEBUFFER_OPERATION'') \<and>
               (Error = GL_CONTEXT_LOST \<longrightarrow> label = ''CONTEXT_LOST'') \<and>
               (Error \<notin> {GL_INVALID_ENUM, GL_INVALID_VALUE, GL_INVALID_OPERATION,
                           GL_OUT_OF_MEMORY, GL_INVALID_FRAMEBUFFER_OPERATION, GL_CONTEXT_LOST} \<longrightarrow>
                  label = ''UNKNOWN_ERROR'')))"
proof -
  note l = call_uint_log[OF q]
  have quiet: "Error = GL_NO_ERROR \<Longrightarrow> PrintOpenGLErrors env Function File Line w = w1"
    using q by (simp add: PrintOpenGLErrors_def)
  have loud: "Error \<noteq> GL_NO_ERROR \<Longrightarrow>
      PrintOpenGLErrors env Function File Line w =
        w1\<lparr>cerr := cerr w @ ''OpenGL Error in '' @ File @ '' at line '' @ show_int Line
               @ '' calling function '' @ Function @ '': '' @ ErrorString Error @ endl\<rparr>"
    using q l by (simp add: PrintOpenGLErrors_def put_cerr_def)
  have names:
    "Error = GL_INVALID_ENUM \<longrightarrow> ErrorString Error = ''INVALID_ENUM''"
    "Error = GL_INVALID_VALUE \<longrightarrow> ErrorString Error = ''INVALID_VALUE''"
    "Error = GL_INVALID_OPERATION \<longrightarrow> ErrorString Error = ''INVALID_OPERATION''"
    "Error = GL_OUT_OF_MEMORY \<longrightarrow> ErrorString Error = ''OUT_OF_MEMORY''"
    "Error = GL_INVALID_FRAMEBUFFER_OPERATION \<longrightarrow>
       ErrorString Error = ''INVALID_FRAMEBUFFER_OPERATION''"
    "Error = GL_CONTEXT_LOST \<longrightarrow> ErrorString Error = ''CONTEXT_LOST''"
    "Error \<notin> {GL_INVALID_ENUM, GL_INVALID_VALUE, GL_INVALID_OPERATION,
                GL_OUT_OF_MEMORY, GL_INVALID_FRAMEBUFFER_OPERATION, GL_CONTEXT_LOST} \<longrightarrow>
       ErrorString Error = ''UNKNOWN_ERROR''"
    by (simp_all add: ErrorString_def gl_error_codes)
  show ?thesis
  proof (intro conjI impI)
    assume "Error \<noteq> GL_NO_ERROR"
    from loud[OF this] names l
    show "\<exists>label.
               PrintOpenGLErrors env Function File Line w =
                 w1\<lparr>cerr := cerr w @ ''OpenGL Error in '' @ File @ '' at line '' @ show_int Line
                        @ '' calling function '' @ Function @ '': '' @ label @ endl\<rparr> \<and>
               cout w1 = cout w \<and>
               (Error = GL_INVALID_ENUM \<longrightarrow> label = ''INVALID_ENUM'') \<and>
               (Error = GL_INVALID_VALUE \<longrightarrow> label = ''INVALID_VALUE'') \<and>
               (Error = GL_INVALID_OPERATION \<longrightarrow> label = ''INVALID_OPERATION'') \<and>
               (Error = GL_OUT_OF_MEMORY \<longrightarrow> label = ''OUT_OF_MEMORY'') \<and>
               (Error = GL_INVALID_FRAMEBUFFER_OPERATION \<longrightarrow>
                  label = ''INVALID_FRAMEBUFFER_OPERATION'') \<and>
               (Error = GL_CONTEXT_LOST \<longrightarrow> label = ''CONTEXT_LOST'') \<and>
               (Error \<notin> {GL_INVALID_ENUM, GL_INVALID_VALUE, GL_INVALID_OPERATION,
                           GL_OUT_OF_MEMORY, GL_INVALID_FRAMEBUFFER_OPERATION, GL_CONTEXT_LOST} \<longrightarrow>
                  label = ''UNKNOWN_ERROR'')"
      by (intro exI[of _ "ErrorString Error"]) blast
  qed (use quiet l in simp_all)
qed

theorem PrintOpenGLErrors_reports_witness:
  "cerr (PrintOpenGLErrors sim_env ''glClear(0)'' ''main.cpp'' 209
           (start (sim_start\<lparr>pending := [GL_OUT_OF_MEMORY]\<rparr>))) =
     ''OpenGL Error in main.cpp at line 209 calling function glClear(0): OUT_OF_MEMORY'' @ endl \<and>
   cerr (PrintOpenGLErrors sim_env ''glClear(0)'' ''main.cpp'' 209 (start sim_start)) = []"
proof -
  let ?w = "start (sim_start\<lparr>pending := [GL_OUT_OF_MEMORY]\<rparr>)"
  have q: "call_uint sim_env GlGetError ?w = (GL_OUT_OF_MEMORY, snd (call_uint sim_env GlGetError ?w))"
    by (simp add: sim_defs call_defs)
  have q0: "call_uint sim_env GlGetError (start sim_start) =
              (GL_NO_ERROR, snd (call_uint sim_env GlGetError (start sim_start)))"
    by (simp add: sim_defs call_defs)
  have c: "cerr ?w = []" "cerr (start sim_start) = []"
    by (simp_all add: start_def)
  have ne: "GL_OUT_OF_MEMORY \<noteq> GL_NO_ERROR"
    by (simp add: gl_error_codes)
  have n: "show_int 209 = ''209''"
    by (simp add: show_defs)
  from PrintOpenGLErrors_reports[OF q, of "''glClear(0)''" "''main.cpp''" 209] ne
  obtain label where
    "PrintOpenGLErrors sim_env ''glClear(0)'' ''main.cpp'' 209 ?w =
       (snd (call_uint sim_env GlGetError ?w))\<lparr>cerr := cerr ?w @ ''OpenGL Error in '' @ ''main.cpp''
          @ '' at line '' @ show_int 209 @ '' calling function '' @ ''glClear(0)'' @ '': ''
          @ label @ endl\<rparr>"
    and "label = ''OUT_OF_MEMORY''"
    by blast
  then have 1: "cerr (PrintOpenGLErrors sim_env ''glClear(0)'' ''main.cpp'' 209 ?w) =
     ''OpenGL Error in main.cpp at line 209 calling function glClear(0): OUT_OF_MEMORY'' @ endl"
    using c n by simp
  from PrintOpenGLErrors_reports[OF q0, of "''glClear(0)''" "''main.cpp''" 209]
  have 2: "cerr (PrintOpenGLErrors sim_env ''glClear(0)'' ''main.cpp'' 209 (start sim_start)) = []"
    using c by simp
  from 1 2 show ?thesis by simp
qed

section \<open>Properties of the checked-call macros\<close>

text \<open>
  Claim C2. The claim is that \<^verbatim>\<open>CheckedGLResult(x)\<close>, in a debug build, checks for errors
  after \<open>x\<close> has run. The macro is \<^verbatim>\<open>(PrintOpenGLErrors(#x, __FILE__, __LINE__), (x))\<close>, and
  the comma operator runs the check first. Here the attribute lookup of line 201 is run on a
  program that is not linked, with no error pending before: the lookup raises
  \<^verbatim>\<open>GL_INVALID_OPERATION\<close>, the log shows the error query before the lookup, nothing is
  written to \<^verbatim>\<open>std::cerr\<close>, and the error is still pending afterwards. The value is the
  lookup's own.
\<close>

theorem CheckedGLResult_checks_before_call:
  "fst (CheckedGLResult True sim_env
          (''glGetAttribLocation(ShaderProgram, '' @ [CHR 0x22] @ ''position'' @ [CHR 0x22] @ '')'')
          ''main.cpp'' 201
          (call_int sim_env (GlGetAttribLocation 6 ''position''))
          (start (sim_start\<lparr>link_ok := False\<rparr>))) = - 1 \<and>
   calls (snd (CheckedGLResult True sim_env
          (''glGetAttribLocation(ShaderProgram, '' @ [CHR 0x22] @ ''position'' @ [CHR 0x22] @ '')'')
          ''main.cpp'' 201
          (call_int sim_env (GlGetAttribLocation 6 ''position''))
          (start (sim_start\<lparr>link_ok := False\<rparr>)))) =
     [EvUInt GlGetError GL_NO_ERROR, EvInt (GlGetAttribLocation 6 ''position'') (- 1)] \<and>
   cerr (snd (CheckedGLResult True sim_env
          (''glGetAttribLocation(ShaderProgram, '' @ [CHR 0x22] @ ''position'' @ [CHR 0x22] @ '')'')
          ''main.cpp'' 201
          (call_int sim_env (GlGetAttribLocation 6 ''position''))
          (start (sim_start\<lparr>link_ok := False\<rparr>)))) = [] \<and>
   pending (st (snd (CheckedGLResult True sim_env
          (''glGetAttribLocation(ShaderProgram, '' @ [CHR 0x22] @ ''position'' @ [CHR 0x22] @ '')'')
          ''main.cpp'' 201
          (call_int sim_env (GlGetAttribLocation 6 ''position''))
          (start (sim_start\<lparr>link_ok := False\<rparr>))))) = [GL_INVALID_OPERATION]"
  by (simp add: run_rules run_aux cong: run_congs)

text \<open>
  Claim C9. The claim is that in a release build each of the three macros behaves as the
  bare call \<open>x\<close>. That holds for \<^verbatim>\<open>CheckedGLCall\<close> and \<^verbatim>\<open>CheckedGLResult\<close>, which expand to
  \<^verbatim>\<open>(x)\<close>. \<^verbatim>\<open>CheckExistingErrors(x)\<close> expands to nothing, so \<open>x\<close> does not run: with
  \<^verbatim>\<open>glUseProgram(6)\<close> for \<open>x\<close> the bare call is logged and the macro logs nothing.
\<close>

theorem CheckExistingErrors_release_skips_call:
  "calls (CheckExistingErrors False sim_env ''glUseProgram(ShaderProgram)'' ''main.cpp'' 198
            (call_void sim_env (GlUseProgram 6)) (start sim_start)) = [] \<and>
   calls (snd (call_void sim_env (GlUseProgram 6) (start sim_start))) = [EvVoid (GlUseProgram 6)]"
  by (simp add: CheckExistingErrors_def call_void_def start_def)

text \<open>
  Claim C9, amended. In a release build \<^verbatim>\<open>CheckedGLCall(x)\<close> and \<^verbatim>\<open>CheckedGLResult(x)\<close> are
  the bare call \<open>x\<close>: the same value, the same effects, no query and no output added.
  \<^verbatim>\<open>CheckExistingErrors(x)\<close> is the empty statement: it leaves the world as it is and does
  not run \<open>x\<close>.
\<close>

theorem release_macros:
  "CheckedGLCall False env xtext FILE LINE x w = x w \<and>
   CheckedGLResult False env xtext FILE LINE x w = x w \<and>
   CheckExistingErrors False env xtext FILE LINE y w = w"
  by (simp add: CheckedGLCall_def CheckedGLResult_def CheckExistingErrors_def)

section \<open>Properties of the shader loader\<close>

text \<open>
  Claim C5. When the file at \<open>path\<close> cannot be opened, \<^verbatim>\<open>CompileShader\<close> fails with the
  error \<^verbatim>\<open>Failed to open shader file: \<close> followed by the path, and the world is what it
  was: no call has reached the driver, no shader object exists, nothing was printed.
\<close>

theorem CompileShader_unreadable:
  assumes "ext_file env path = None"
  shows "CompileShader env path shaderType w =
           (Inl (runtime_error (''Failed to open shader file: '' @ path)), w)"
  using assms by (simp add: CompileShader_def LoadShaderFromFile_def)

theorem CompileShader_unreadable_witness:
  "CompileShader sim_env ''shaders/missing.glsl'' GL_VERTEX_SHADER (start sim_start) =
     (Inl (runtime_error ''Failed to open shader file: shaders/missing.glsl''), start sim_start)"
proof -
  have "ext_file sim_env ''shaders/missing.glsl'' = None"
    by (simp add: sim_env_def sim_file_def)
  from CompileShader_unreadable[OF this, of GL_VERTEX_SHADER "start sim_start"]
  show ?thesis by simp
qed

text \<open>
  Claim C4. When the compile-status query answers failure (zero), \<^verbatim>\<open>CompileShader\<close> fails
  with the error \<^verbatim>\<open>Shader compilation failed: \<close> followed by the info log as the driver
  wrote it into the buffer of 512 bytes.
\<close>

theorem CompileShader_failure_message:
  assumes "ext_file env path = Some src"
    and "call_uint env (GlCreateShader shaderType) w = (shader, w1)"
    and "call_void env (GlShaderSource shader (c_str src)) w1 = (u1, w2)"
    and "call_void env (GlCompileShader shader) w2 = (u2, w3)"
    and "call_int env (GlGetShaderiv shader GL_COMPILE_STATUS) w3 = (0, w4)"
    and "call_str env (GlGetShaderInfoLog shader 512) w4 = (infoLog, w5)"
  shows "fst (CompileShader env path shaderType w) =
           Inl (runtime_error (''Shader compilation failed: '' @ infoLog))"
  using CompileShader_failure[OF assms] by simp

theorem CompileShader_failure_message_witness:
  "fst (CompileShader sim_env ''shaders/vertex.glsl'' GL_VERTEX_SHADER
          (start (sim_start\<lparr>compile_ok := False, info_log := ''0:1: syntax error''\<rparr>))) =
     Inl (runtime_error ''Shader compilation failed: 0:1: syntax error'')"
proof -
  let ?w = "start (sim_start\<lparr>compile_ok := False, info_log := ''0:1: syntax error''\<rparr>)"
  let ?src = "''void main() { gl_Position = vec4(0); }''"
  let ?w1 = "snd (call_uint sim_env (GlCreateShader GL_VERTEX_SHADER) ?w)"
  let ?w2 = "snd (call_void sim_env (GlShaderSource 1 (c_str ?src)) ?w1)"
  let ?w3 = "snd (call_void sim_env (GlCompileShader 1) ?w2)"
  let ?w4 = "snd (call_int sim_env (GlGetShaderiv 1 GL_COMPILE_STATUS) ?w3)"
  let ?w5 = "snd (call_str sim_env (GlGetShaderInfoLog 1 512) ?w4)"
  have f: "ext_file sim_env ''shaders/vertex.glsl'' = Some ?src"
    by (simp add: sim_defs)
  have c: "call_uint sim_env (GlCreateShader GL_VERTEX_SHADER) ?w = (1, ?w1)"
    by (simp add: sim_defs call_defs)
  have s: "call_void sim_env (GlShaderSource 1 (c_str ?src)) ?w1 = ((), ?w2)"
    by (simp add: call_defs)
  have k: "call_void sim_env (GlCompileShader 1) ?w2 = ((), ?w3)"
    by (simp add: call_defs)
  have q: "call_int sim_env (GlGetShaderiv 1 GL_COMPILE_STATUS) ?w3 = (0, ?w4)"
    by (simp add: sim_defs call_defs)
  have l: "call_str sim_env (GlGetShaderInfoLog 1 512) ?w4 = (''0:1: syntax error'', ?w5)"
    by (simp add: sim_defs call_defs)
  show ?thesis
    using CompileShader_failure_message[OF f c s k q l] by simp
qed

text \<open>
  Claim C10. When the compile-status query answers failure, \<^verbatim>\<open>CompileShader\<close> raises its
  error and leaves the shader it created allocated: of the calls it has made, the only one
  that creates or releases a GPU object is the \<^verbatim>\<open>glCreateShader\<close> that returned the handle.
  No \<^verbatim>\<open>glDeleteShader\<close> is among them.
\<close>

theorem CompileShader_failure_leaks:
  assumes "ext_file env path = Some src"
    and "call_uint env (GlCreateShader shaderType) w = (shader, w1)"
    and "call_void env (GlShaderSource shader (c_str src)) w1 = (u1, w2)"
    and "call_void env (GlCompileShader shader) w2 = (u2, w3)"
    and "call_int env (GlGetShaderiv shader GL_COMPILE_STATUS) w3 = (0, w4)"
  shows "\<exists>e w' new.
           CompileShader env path shaderType w = (Inl e, w') \<and>
           calls w' = calls w @ new \<and>
           lifecycle new = [EvUInt (GlCreateShader shaderType) shader]"
proof -
  obtain infoLog w5 where l: "call_str env (GlGetShaderInfoLog shader 512) w4 = (infoLog, w5)"
    by (cases "call_str env (GlGetShaderInfoLog shader 512) w4")
  obtain n w6 where
    n: "call_int env (GlGetShaderiv (word_of_int (sint shader)) GL_INFO_LOG_LENGTH) w5 = (n, w6)"
    by (cases "call_int env (GlGetShaderiv (word_of_int (sint shader)) GL_INFO_LOG_LENGTH) w5")
  note r = CompileShader_failure[OF assms l]
  have c: "calls w5 = calls w @ [EvUInt (GlCreateShader shaderType) shader,
             EvVoid (GlShaderSource shader (c_str src)), EvVoid (GlCompileShader shader),
             EvInt (GlGetShaderiv shader GL_COMPILE_STATUS) 0,
             EvStr (GlGetShaderInfoLog shader 512) infoLog]"
    using call_uint_log[OF assms(2)] call_void_log[OF assms(3)] call_void_log[OF assms(4)]
      call_int_log[OF assms(5)] call_str_log[OF l] by simp
  show ?thesis
    apply (rule exI[of _ "runtime_error (''Shader compilation failed: '' @ infoLog)"])
    apply (rule exI[of _ "PrintShaderInfoLog env (sint shader) w5"])
    apply (simp add: r PrintShaderInfoLog_log(1)[OF n] c)
    apply (simp add: lifecycle_def is_create_def is_release_def)
    done
qed

theorem CompileShader_failure_leaks_witness:
  "\<exists>e w' new.
     CompileShader sim_env ''shaders/fragment.glsl'' GL_FRAGMENT_SHADER
       (start (sim_start\<lparr>compile_ok := False, info_log := ''0:1: syntax error''\<rparr>)) = (Inl e, w') \<and>
     calls w' = [] @ new \<and>
     lifecycle new = [EvUInt (GlCreateShader GL_FRAGMENT_SHADER) 1]"
proof -
  let ?w = "start (sim_start\<lparr>compile_ok := False, info_log := ''0:1: syntax error''\<rparr>)"
  let ?src = "''void main() { }''"
  let ?w1 = "snd (call_uint sim_env (GlCreateShader GL_FRAGMENT_SHADER) ?w)"
  let ?w2 = "snd (call_void sim_env (GlShaderSource 1 (c_str ?src)) ?w1)"
  let ?w3 = "snd (call_void sim_env (GlCompileShader 1) ?w2)"
  let ?w4 = "snd (call_int sim_env (GlGetShaderiv 1 GL_COMPILE_STATUS) ?w3)"
  have f: "ext_file sim_env ''shaders/fragment.glsl'' = Some ?src"
    by (simp add: sim_defs)
  have c: "call_uint sim_env (GlCreateShader GL_FRAGMENT_SHADER) ?w = (1, ?w1)"
    by (simp add: sim_defs call_defs)
  have s: "call_void sim_env (GlShaderSource 1 (c_str ?src)) ?w1 = ((), ?w2)"
    by (simp add: call_defs)
  have k: "call_void sim_env (GlCompileShader 1) ?w2 = ((), ?w3)"
    by (simp add: call_defs)
  have q: "call_int sim_env (GlGetShaderiv 1 GL_COMPILE_STATUS) ?w3 = (0, ?w4)"
    by (simp add: sim_defs call_defs)
  have e: "calls ?w = []"
    by (simp add: start_def)
  show ?thesis
    using CompileShader_failure_leaks[OF f c s k q] e by simp
qed

text \<open>
  Claim C3. The claim is that on a successful compilation \<^verbatim>\<open>CompileShader\<close> returns the
  handle and prints the info log when it is not empty. \<^verbatim>\<open>PrintShaderInfoLog\<close> is called in
  the failure branch only (line 104). Here the vertex shader compiles, the driver holds
  the info log \<^verbatim>\<open>warning: unused variable\<close> (its length query answers 25), the handle 1
  is returned, and nothing has been written to \<^verbatim>\<open>std::cout\<close>.
\<close>

theorem CompileShader_success_prints_no_log:
  "fst (CompileShader sim_env ''shaders/vertex.glsl'' GL_VERTEX_SHADER
          (start (sim_start\<lparr>info_log := ''warning: unused variable''\<rparr>))) = Inr 1 \<and>
   fst (sim_int (GlGetShaderiv 1 GL_INFO_LOG_LENGTH)
          (sim_start\<lparr>info_log := ''warning: unused variable''\<rparr>)) = 25 \<and>
   cout (snd (CompileShader sim_env ''shaders/vertex.glsl'' GL_VERTEX_SHADER
          (start (sim_start\<lparr>info_log := ''warning: unused variable''\<rparr>)))) = []"
  by (simp add: run_rules run_aux cong: run_congs)

text \<open>
  Claim C3, amended. For every shader file that can be read and whose compile-status query
  answers success, \<^verbatim>\<open>CompileShader\<close> returns the new shader handle without failing, writes
  nothing to either stream, and makes exactly four driver calls: create, source, compile
  and the status query. The info log is neither queried nor printed on success.
\<close>

theorem CompileShader_success:
  assumes "ext_file env path = Some src"
    and "call_uint env (GlCreateShader shaderType) w = (shader, w1)"
    and "call_void env (GlShaderSource shader (c_str src)) w1 = (u1, w2)"
    and "call_void env (GlCompileShader shader) w2 = (u2, w3)"
    and "call_int env (GlGetShaderiv shader GL_COMPILE_STATUS) w3 = (success, w4)"
    and "success \<noteq> 0"
  shows "CompileShader env path shaderType w = (Inr shader, w4) \<and>
         cout w4 = cout w \<and> cerr w4 = cerr w \<and>
         calls w4 = calls w @ [EvUInt (GlCreateShader shaderType) shader,
             EvVoid (GlShaderSource shader (c_str src)), EvVoid (GlCompileShader shader),
             EvInt (GlGetShaderiv shader GL_COMPILE_STATUS) success]"
  using assms call_uint_log[OF assms(2)] call_void_log[OF assms(3)] call_void_log[OF assms(4)]
      call_int_log[OF assms(5)]
  by (simp add: CompileShader_def LoadShaderFromFile_def)

theorem CompileShader_success_witness:
  "fst (CompileShader sim_env ''shaders/vertex.glsl'' GL_VERTEX_SHADER (start sim_start)) = Inr 1 \<and>
   cout (snd (CompileShader sim_env ''shaders/vertex.glsl'' GL_VERTEX_SHADER (start sim_start))) = [] \<and>
   calls (snd (CompileShader sim_env ''shaders/vertex.glsl'' GL_VERTEX_SHADER (start sim_start))) =
     [EvUInt (GlCreateShader GL_VERTEX_SHADER) 1,
      EvVoid (GlShaderSource 1 ''void main() { gl_Position = vec4(0); }''),
      EvVoid (GlCompileShader 1),
      EvInt (GlGetShaderiv 1 GL_COMPILE_STATUS) 1]"
proof -
  let ?w = "start sim_start"
  let ?src = "''void main() { gl_Position = vec4(0); }''"
  let ?w1 = "snd (call_uint sim_env (GlCreateShader GL_VERTEX_SHADER) ?w)"
  let ?w2 = "snd (call_void sim_env (GlShaderSource 1 (c_str ?src)) ?w1)"
  let ?w3 = "snd (call_void sim_env (GlCompileShader 1) ?w2)"
  let ?w4 = "snd (call_int sim_env (GlGetShaderiv 1 GL_COMPILE_STATUS) ?w3)"
  have f: "ext_file sim_env ''shaders/vertex.glsl'' = Some ?src"
    by (simp add: sim_defs)
  have c: "call_uint sim_env (GlCreateShader GL_VERTEX_SHADER) ?w = (1, ?w1)"
    by (simp add: sim_defs call_defs)
  have s: "call_void sim_env (GlShaderSource 1 (c_str ?src)) ?w1 = ((), ?w2)"
    by (simp add: call_defs)
  have k: "call_void sim_env (GlCompileShader 1) ?w2 = ((), ?w3)"
    by (simp add: call_defs)
  have q: "call_int sim_env (GlGetShaderiv 1 GL_COMPILE_STATUS) ?w3 = (1, ?w4)"
    by (simp add: sim_defs call_defs)
  have n: "(1::int) \<noteq> 0"
    by simp
  have e: "calls ?w = []" "cout ?w = []"
    by (simp_all add: start_def)
  have t: "c_str ?src = ?src"
    by (simp add: c_str_def)
  from CompileShader_success[OF f c s k q n] e t
  show ?thesis by simp
qed

section \<open>Properties of the program\<close>

text \<open>
  Claim C6. When \<^verbatim>\<open>main\<close> returns 0, that is after the window has asked to close, the
  life cycle of the GPU objects in the call log of the run is exactly: the vertex array,
  the vertex buffer, the element buffer, the vertex shader, the fragment shader and the
  program are created; then the program, the fragment shader, the vertex shader, the
  element buffer, the vertex buffer and the vertex array are deleted, each handle once and
  in this order; then the windowing library is terminated.
\<close>

theorem main_releases_in_order:
  assumes "main DEBUG env FILE w = Some (Inr 0, w')"
  shows "\<exists>VAO VBO EBO VertexShader FragmentShader ShaderProgram.
           lifecycle (calls w') = lifecycle (calls w) @
             [EvUInt GlGenVertexArrays VAO,
              EvUInt GlGenBuffers VBO,
              EvUInt GlGenBuffers EBO,
              EvUInt (GlCreateShader GL_VERTEX_SHADER) VertexShader,
              EvUInt (GlCreateShader GL_FRAGMENT_SHADER) FragmentShader,
              EvUInt GlCreateProgram ShaderProgram,
              EvVoid (GlDeleteProgram ShaderProgram),
              EvVoid (GlDeleteShader FragmentShader),
              EvVoid (GlDeleteShader VertexShader),
              EvVoid (GlDeleteBuffers EBO),
              EvVoid (GlDeleteBuffers VBO),
              EvVoid (GlDeleteVertexArrays VAO),
              EvVoid GlfwTerminate]"
  using assms
  apply (simp add: main_def Let_def split: prod.splits if_splits option.splits sum.splits)
  apply (auto dest!: call_int_log call_void_log call_uint_log call_str_log glfwCreateWindow_log
      CheckedGLCall_void_lifecycle CheckedGLCall_uint_lifecycle CheckedGLResult_uint_lifecycle
      CheckedGLResult_int_lifecycle CompileShader_lifecycle render_loop_lifecycle
      simp: lifecycle_append lifecycle_list is_release_def is_create_def put_calls)
  done

theorem main_releases_in_order_witness:
  "\<exists>w' VAO VBO EBO VertexShader FragmentShader ShaderProgram.
     main True sim_env ''main.cpp'' (start sim_start) = Some (Inr 0, w') \<and>
     lifecycle (calls w') =
       [EvUInt GlGenVertexArrays VAO,
        EvUInt GlGenBuffers VBO,
        EvUInt GlGenBuffers EBO,
        EvUInt (GlCreateShader GL_VERTEX_SHADER) VertexShader,
        EvUInt (GlCreateShader GL_FRAGMENT_SHADER) FragmentShader,
        EvUInt GlCreateProgram ShaderProgram,
        EvVoid (GlDeleteProgram ShaderProgram),
        EvVoid (GlDeleteShader FragmentShader),
        EvVoid (GlDeleteShader VertexShader),
        EvVoid (GlDeleteBuffers EBO),
        EvVoid (GlDeleteBuffers VBO),
        EvVoid (GlDeleteVertexArrays VAO),
        EvVoid GlfwTerminate]"
proof -
  obtain w' where run: "main True sim_env ''main.cpp'' (start sim_start) = Some (Inr 0, w')"
    using run_to_the_end by blast
  have e: "lifecycle (calls (start sim_start)) = []"
    by (simp add: start_def lifecycle_list)
  from main_releases_in_order[OF run] e run show ?thesis
    by auto
qed

text \<open>
  Claim C7. Every status \<^verbatim>\<open>main\<close> returns is 0 or -1. It returns -1 when
  \<^verbatim>\<open>glfwInit\<close> answers zero, when \<^verbatim>\<open>glfwCreateWindow\<close> answers a null window, and when
  \<^verbatim>\<open>glewInit\<close> answers anything but \<^verbatim>\<open>GLEW_OK\<close>; in each of these cases it does
  return. When all three succeed, a status it returns is 0, and it does return 0 as soon
  as both shaders compile and the render loop ends: the statement follows the run from
  there, and \<^verbatim>\<open>main\<close> leaves with the exception of \<^verbatim>\<open>CompileShader\<close> when a shader
  fails, does not return exactly when the render loop does not, and returns 0 otherwise.
\<close>

theorem main_exit_status:
  "(\<forall>status w'. main DEBUG env FILE w = Some (Inr status, w') \<longrightarrow> status = 0 \<or> status = - 1) \<and>
   (let (ok, w1) = call_int env GlfwInit w
    in if ok = 0 then \<exists>w'. main DEBUG env FILE w = Some (Inr (- 1), w')
       else
         let (u, w2) = call_void env (GlfwWindowHint GLFW_CONTEXT_VERSION_MAJOR 3) w1;
             (u, w3) = call_void env (GlfwWindowHint GLFW_CONTEXT_VERSION_MINOR 3) w2;
             (u, w4) = call_void env (GlfwWindowHint GLFW_OPENGL_PROFILE GLFW_OPENGL_CORE_PROFILE) w3;
             (u, w5) = call_void env (GlfwWindowHint GLFW_OPENGL_FORWARD_COMPAT (uint GL_TRUE)) w4;
             (window, w6) = glfwCreateWindow env 640 480 ''Modern OpenGL'' w5
         in case window of
              None \<Rightarrow> \<exists>w'. main DEBUG env FILE w = Some (Inr (- 1), w')
            | Some win \<Rightarrow>
                let (u, w7) = call_void env (GlfwMakeContextCurrent win) w6;
                    (u, w8) = call_void env (GlfwSetFramebufferSizeCallback win) w7;
                    (u, w9) = call_void env (GlewExperimental GL_TRUE) w8;
                    (err, w10) = call_uint env GlewInit w9
                in if err \<noteq> GLEW_OK
                   then \<exists>w'. main DEBUG env FILE w = Some (Inr (- 1), w')
                   else (\<forall>status w'. main DEBUG env FILE w = Some (Inr status, w') \<longrightarrow> status = 0) \<and>
      (let (version, w11) = call_str env (GlGetString GL_VERSION) w10;
          w12 = put_cout (''OpenGL Version: '' @ version @ endl) w11;
          (VAO, w13) = CheckedGLCall DEBUG env ''glGenVertexArrays(1, &VAO)'' FILE 172
                       (call_uint env GlGenVertexArrays) w12;
          (u, w14) = CheckedGLCall DEBUG env ''glBindVertexArray(VAO)'' FILE 173
                     (call_void env (GlBindVertexArray VAO)) w13;
          (VBO, w15) = CheckedGLCall DEBUG env ''glGenBuffers(1, &VBO)'' FILE 177
                       (call_uint env GlGenBuffers) w14;
          (u, w16) = CheckedGLCall DEBUG env ''glBindBuffer(GL_ARRAY_BUFFER, VBO)'' FILE 178
                     (call_void env (GlBindBuffer GL_ARRAY_BUFFER VBO)) w15;
          (u, w17) = CheckedGLCall DEBUG env
                     ''glBufferData(GL_ARRAY_BUFFER, sizeof(Vertices), Vertices, GL_STATIC_DRAW)''
                     FILE 179
                     (call_void env (GlBufferData GL_ARRAY_BUFFER 24 (Floats Vertices) GL_STATIC_DRAW)) w16;
          (EBO, w18) = CheckedGLCall DEBUG env ''glGenBuffers(1, &EBO)'' FILE 183
                       (call_uint env GlGenBuffers) w17;
          (u, w19) = CheckedGLCall DEBUG env ''glBindBuffer(GL_ELEMENT_ARRAY_BUFFER, EBO)'' FILE 184
                     (call_void env (GlBindBuffer GL_ELEMENT_ARRAY_BUFFER EBO)) w18;
          (u, w20) = CheckedGLCall DEBUG env
                     ''glBufferData(GL_ELEMENT_ARRAY_BUFFER, sizeof(Elements), Elements, GL_STATIC_DRAW)''
                     FILE 185
                     (call_void env
                        (GlBufferData GL_ELEMENT_ARRAY_BUFFER 12 (UInts Elements) GL_STATIC_DRAW)) w19;
          (vs, w21) = CompileShader env ''shaders/vertex.glsl'' GL_VERTEX_SHADER w20
      in (case vs of
           Inl e \<Rightarrow> main DEBUG env FILE w = Some (Inl e, w21)
         | Inr VertexShader \<Rightarrow>
      (let (fs, w22) = CompileShader env ''shaders/fragment.glsl'' GL_FRAGMENT_SHADER w21
      in (case fs of
           Inl e \<Rightarrow> main DEBUG env FILE w = Some (Inl e, w22)
         | Inr FragmentShader \<Rightarrow>
      (let (ShaderProgram, w23) = CheckedGLResult DEBUG env ''glCreateProgram()'' FILE 194
                                 (call_uint env GlCreateProgram) w22;
          (u, w24) = CheckedGLCall DEBUG env ''glAttachShader(ShaderProgram, VertexShader)'' FILE 195
                     (call_void env (GlAttachShader ShaderProgram VertexShader)) w23;
          (u, w25) = CheckedGLCall DEBUG env ''glAttachShader(ShaderProgram, FragmentShader)'' FILE 196
                     (call_void env (GlAttachShader ShaderProgram FragmentShader)) w24;
          (u, w26) = CheckedGLCall DEBUG env ''glLinkProgram(ShaderProgram)'' FILE 197
                     (call_void env (GlLinkProgram ShaderProgram)) w25;
          (u, w27) = CheckedGLCall DEBUG env ''glUseProgram(ShaderProgram)'' FILE 198
                     (call_void env (GlUseProgram ShaderProgram)) w26;
          (PositionAttribute, w28) =
             CheckedGLResult DEBUG env
               (''glGetAttribLocation(ShaderProgram, '' @ [CHR 0x22] @ ''position'' @ [CHR 0x22] @ '')'')
               FILE 201
               (call_int env (GlGetAttribLocation ShaderProgram ''position'')) w27;
          (u, w29) = CheckedGLCall DEBUG env ''glEnableVertexAttribArray(PositionAttribute)'' FILE 202
                     (call_void env (GlEnableVertexAttribArray (word_of_int PositionAttribute))) w28;
          (u, w30) = CheckedGLCall DEBUG env
                     ''glVertexAttribPointer(PositionAttribute, 2, GL_FLOAT, GL_FALSE, 0, 0)'' FILE 203
                     (call_void env
                        (GlVertexAttribPointer (word_of_int PositionAttribute) 2 GL_FLOAT GL_FALSE 0 0)) w29
      in (case render_loop DEBUG env FILE win w30 of
           None \<Rightarrow> main DEBUG env FILE w = None
         | Some w31 \<Rightarrow> (\<exists>w'. main DEBUG env FILE w = Some (Inr 0, w')))))))))"
  (is "?all \<and> ?cases")
proof -
  have any: "status = 0 \<or> status = - 1" if "main DEBUG env FILE w = Some (Inr status, w')"
    for status w'
    using that
    by (simp add: main_def Let_def split: prod.splits if_splits option.splits sum.splits)
  obtain ok w1 where 1: "call_int env GlfwInit w = (ok, w1)"
    by (cases "call_int env GlfwInit w")
  obtain u2 w2 where 2: "call_void env (GlfwWindowHint GLFW_CONTEXT_VERSION_MAJOR 3) w1 = (u2, w2)"
    by (cases "call_void env (GlfwWindowHint GLFW_CONTEXT_VERSION_MAJOR 3) w1")
  obtain u3 w3 where 3: "call_void env (GlfwWindowHint GLFW_CONTEXT_VERSION_MINOR 3) w2 = (u3, w3)"
    by (cases "call_void env (GlfwWindowHint GLFW_CONTEXT_VERSION_MINOR 3) w2")
  obtain u4 w4 where
    4: "call_void env (GlfwWindowHint GLFW_OPENGL_PROFILE GLFW_OPENGL_CORE_PROFILE) w3 = (u4, w4)"
    by (cases "call_void env (GlfwWindowHint GLFW_OPENGL_PROFILE GLFW_OPENGL_CORE_PROFILE) w3")
  obtain u5 w5 where
    5: "call_void env (GlfwWindowHint GLFW_OPENGL_FORWARD_COMPAT (uint GL_TRUE)) w4 = (u5, w5)"
    by (cases "call_void env (GlfwWindowHint GLFW_OPENGL_FORWARD_COMPAT (uint GL_TRUE)) w4")
  obtain window w6 where 6: "glfwCreateWindow env 640 480 ''Modern OpenGL'' w5 = (window, w6)"
    by (cases "glfwCreateWindow env 640 480 ''Modern OpenGL'' w5")
  note prefix = 1 2 3 4 5 6
  have no_glfw: "\<exists>w'. main DEBUG env FILE w = Some (Inr (- 1), w')" if "ok = 0"
    using that 1 by (simp add: main_def)
  have no_window: "\<exists>w'. main DEBUG env FILE w = Some (Inr (- 1), w')"
    if "ok \<noteq> 0" "window = None"
    using that prefix by (simp add: main_def split: prod.splits)
  have with_window:
    "let (u, w7) = call_void env (GlfwMakeContextCurrent win) w6;
         (u, w8) = call_void env (GlfwSetFramebufferSizeCallback win) w7;
         (u, w9) = call_void env (GlewExperimental GL_TRUE) w8;
         (err, w10) = call_uint env GlewInit w9
     in if err \<noteq> GLEW_OK
        then \<exists>w'. main DEBUG env FILE w = Some (Inr (- 1), w')
        else (\<forall>status w'. main DEBUG env FILE w = Some (Inr status, w') \<longrightarrow> status = 0) \<and>
      (let (version, w11) = call_str env (GlGetString GL_VERSION) w10;
          w12 = put_cout (''OpenGL Version: '' @ version @ endl) w11;
          (VAO, w13) = CheckedGLCall DEBUG env ''glGenVertexArrays(1, &VAO)'' FILE 172
                       (call_uint env GlGenVertexArrays) w12;
          (u, w14) = CheckedGLCall DEBUG env ''glBindVertexArray(VAO)'' FILE 173
                     (call_void env (GlBindVertexArray VAO)) w13;
          (VBO, w15) = CheckedGLCall DEBUG env ''glGenBuffers(1, &VBO)'' FILE 177
                       (call_uint env GlGenBuffers) w14;
          (u, w16) = CheckedGLCall DEBUG env ''glBindBuffer(GL_ARRAY_BUFFER, VBO)'' FILE 178
                     (call_void env (GlBindBuffer GL_ARRAY_BUFFER VBO)) w15;
          (u, w17) = CheckedGLCall DEBUG env
                     ''glBufferData(GL_ARRAY_BUFFER, sizeof(Vertices), Vertices, GL_STATIC_DRAW)''
                     FILE 179
                     (call_void env (GlBufferData GL_ARRAY_BUFFER 24 (Floats Vertices) GL_STATIC_DRAW)) w16;
          (EBO, w18) = CheckedGLCall DEBUG env ''glGenBuffers(1, &EBO)'' FILE 183
                       (call_uint env GlGenBuffers) w17;
          (u, w19) = CheckedGLCall DEBUG env ''glBindBuffer(GL_ELEMENT_ARRAY_BUFFER, EBO)'' FILE 184
                     (call_void env (GlBindBuffer GL_ELEMENT_ARRAY_BUFFER EBO)) w18;
          (u, w20) = CheckedGLCall DEBUG env
                     ''glBufferData(GL_ELEMENT_ARRAY_BUFFER, sizeof(Elements), Elements, GL_STATIC_DRAW)''
                     FILE 185
                     (call_void env
                        (GlBufferData GL_ELEMENT_ARRAY_BUFFER 12 (UInts Elements) GL_STATIC_DRAW)) w19;
          (vs, w21) = CompileShader env ''shaders/vertex.glsl'' GL_VERTEX_SHADER w20
      in (case vs of
           Inl e \<Rightarrow> main DEBUG env FILE w = Some (Inl e, w21)
         | Inr VertexShader \<Rightarrow>
      (let (fs, w22) = CompileShader env ''shaders/fragment.glsl'' GL_FRAGMENT_SHADER w21
      in (case fs of
           Inl e \<Rightarrow> main DEBUG env FILE w = Some (Inl e, w22)
         | Inr FragmentShader \<Rightarrow>
      (let (ShaderProgram, w23) = CheckedGLResult DEBUG env ''glCreateProgram()'' FILE 194
                                 (call_uint env GlCreateProgram) w22;
          (u, w24) = CheckedGLCall DEBUG env ''glAttachShader(ShaderProgram, VertexShader)'' FILE 195
                     (call_void env (GlAttachShader ShaderProgram VertexShader)) w23;
          (u, w25) = CheckedGLCall DEBUG env ''glAttachShader(ShaderProgram, FragmentShader)'' FILE 196
                     (call_void env (GlAttachShader ShaderProgram FragmentShader)) w24;
          (u, w26) = CheckedGLCall DEBUG env ''glLinkProgram(ShaderProgram)'' FILE 197
                     (call_void env (GlLinkProgram ShaderProgram)) w25;
          (u, w27) = CheckedGLCall DEBUG env ''glUseProgram(ShaderProgram)'' FILE 198
                     (call_void env (GlUseProgram ShaderProgram)) w26;
          (PositionAttribute, w28) =
             CheckedGLResult DEBUG env
               (''glGetAttribLocation(ShaderProgram, '' @ [CHR 0x22] @ ''position'' @ [CHR 0x22] @ '')'')
               FILE 201
               (call_int env (GlGetAttribLocation ShaderProgram ''position'')) w27;
          (u, w29) = CheckedGLCall DEBUG env ''glEnableVertexAttribArray(PositionAttribute)'' FILE 202
                     (call_void env (GlEnableVertexAttribArray (word_of_int PositionAttribute))) w28;
          (u, w30) = CheckedGLCall DEBUG env
                     ''glVertexAttribPointer(PositionAttribute, 2, GL_FLOAT, GL_FALSE, 0, 0)'' FILE 203
                     (call_void env
                        (GlVertexAttribPointer (word_of_int PositionAttribute) 2 GL_FLOAT GL_FALSE 0 0)) w29
      in (case render_loop DEBUG env FILE win w30 of
           None \<Rightarrow> main DEBUG env FILE w = None
         | Some w31 \<Rightarrow> (\<exists>w'. main DEBUG env FILE w = Some (Inr 0, w'))))))))"
    if ok: "ok \<noteq> 0" and win: "window = Some win" for win
  proof -
    obtain u7 w7 where 7: "call_void env (GlfwMakeContextCurrent win) w6 = (u7, w7)"
      by (cases "call_void env (GlfwMakeContextCurrent win) w6")
    obtain u8 w8 where 8: "call_void env (GlfwSetFramebufferSizeCallback win) w7 = (u8, w8)"
      by (cases "call_void env (GlfwSetFramebufferSizeCallback win) w7")
    obtain u9 w9 where 9: "call_void env (GlewExperimental GL_TRUE) w8 = (u9, w9)"
      by (cases "call_void env (GlewExperimental GL_TRUE) w8")
    obtain err w10 where 10: "call_uint env GlewInit w9 = (err, w10)"
      by (cases "call_uint env GlewInit w9")
    have no_glew: "\<exists>w'. main DEBUG env FILE w = Some (Inr (- 1), w')" if "err \<noteq> GLEW_OK"
      using that ok win prefix 7 8 9 10 by (simp add: main_def split: prod.splits)
    have all_up: "status = 0"
      if "err = GLEW_OK" "main DEBUG env FILE w = Some (Inr status, w')" for status w'
      using that(2) that(1) ok win prefix 7 8 9 10
      by (simp add: main_def Let_def split: prod.splits if_splits option.splits sum.splits)
    show ?thesis
    proof (cases "err = GLEW_OK")
      case False
      with no_glew show ?thesis by (simp add: 7 8 9 10)
    next
      case True
      note rest = main_continues [OF 1 ok 2 3 4 5 6 [unfolded win] 7 8 9 10 [unfolded True]]
      from True all_up have "\<forall>status w'. main DEBUG env FILE w = Some (Inr status, w') \<longrightarrow> status = 0"
        by blast
      with rest True show ?thesis
        by (simp only: 7 8 9 10 Let_def prod.case simp_thms if_False)
    qed
  qed
  show ?thesis
  proof (rule conjI)
    show ?all
      using any by blast
  next
    show ?cases
    proof (cases "ok = 0")
      case True
      with no_glfw show ?thesis
        by (simp only: 1 Let_def prod.case if_True simp_thms)
    next
      case False
      show ?thesis
      proof (cases window)
        case None
        from no_window [OF False None] False None show ?thesis
          by (simp only: prefix Let_def prod.case if_False option.case simp_thms)
      next
        case (Some win)
        from with_window [OF False Some] False Some show ?thesis
          by (simp only: prefix Let_def prod.case if_False option.case simp_thms)
      qed
    qed
  qed
qed

theorem main_exit_status_witness:
  "(\<exists>w'. main True sim_env ''main.cpp'' (start (sim_start\<lparr>glfw_ok := False\<rparr>)) =
            Some (Inr (- 1), w')) \<and>
   (\<exists>w'. main True sim_env ''main.cpp'' (start (sim_start\<lparr>window_ok := False\<rparr>)) =
            Some (Inr (- 1), w')) \<and>
   (\<exists>w'. main True sim_env ''main.cpp'' (start (sim_start\<lparr>glew_code := 1\<rparr>)) =
            Some (Inr (- 1), w')) \<and>
   (\<exists>w'. main True sim_env ''main.cpp'' (start sim_start) = Some (Inr 0, w'))"
proof -
  have a: "\<exists>w'. main True sim_env ''main.cpp'' (start (sim_start\<lparr>glfw_ok := False\<rparr>)) =
             Some (Inr (- 1), w')"
    using main_exit_status [of True sim_env "''main.cpp''" "start (sim_start\<lparr>glfw_ok := False\<rparr>)"]
    by (simp add: call_int_def sim_env_def sim_int_def sim_start_def start_def)
  have b: "\<exists>w'. main True sim_env ''main.cpp'' (start (sim_start\<lparr>window_ok := False\<rparr>)) =
             Some (Inr (- 1), w')"
    using main_exit_status [of True sim_env "''main.cpp''" "start (sim_start\<lparr>window_ok := False\<rparr>)"]
    by (simp add: call_defs sim_env_def sim_int_def sim_void_def sim_window_def sim_start_def
        start_def)
  have c: "\<exists>w'. main True sim_env ''main.cpp'' (start (sim_start\<lparr>glew_code := 1\<rparr>)) =
             Some (Inr (- 1), w')"
    using main_exit_status [of True sim_env "''main.cpp''" "start (sim_start\<lparr>glew_code := 1\<rparr>)"]
    by (simp add: call_defs sim_env_def sim_int_def sim_void_def sim_uint_def sim_window_def
        sim_start_def start_def GLEW_OK_def)
  have d: "\<exists>w'. main True sim_env ''main.cpp'' (start sim_start) = Some (Inr 0, w')"
    using main_exit_status [of True sim_env "''main.cpp''" "start sim_start"]
    by (simp add: step_rules run_aux cong: run_congs)
  from a b c d show ?thesis by blast
qed

text \<open>
  Claim C8. The claim is that both fatal failures before the window exists print the
  windowing library's own error description. When \<^verbatim>\<open>glfwInit\<close> fails, the program prints
  the fixed line \<^verbatim>\<open>Failed to initialize GLFW\<close> and returns -1: \<^verbatim>\<open>glfwInit\<close> is the only
  call it has made, so the description was never asked for.
\<close>

theorem main_glfwInit_failure_prints_no_description:
  "main True sim_env ''main.cpp'' (start (sim_start\<lparr>glfw_ok := False\<rparr>)) =
     Some (Inr (- 1),
           \<lparr>st = sim_start\<lparr>glfw_ok := False\<rparr>,
              calls = [EvInt GlfwInit 0],
              cout = [],
              cerr = ''Failed to initialize GLFW'' @ endl\<rparr>)"
  by (rule run_glfw_fails)

text \<open>
  Claim C8, amended. When \<^verbatim>\<open>glfwCreateWindow\<close> fails, the program prints
  \<^verbatim>\<open>Failed to create GLFW window\<close> and then \<^verbatim>\<open>GLFW Error: \<close> followed by the description
  \<^verbatim>\<open>glfwGetError\<close> answers with, terminates the library and returns -1. When
  \<^verbatim>\<open>glfwInit\<close> fails, it prints the fixed line \<^verbatim>\<open>Failed to initialize GLFW\<close> only, makes no
  further call to the library and returns -1.
\<close>

theorem main_startup_failure_report:
  "(let (ok, w1) = call_int env GlfwInit w
    in if ok = 0
       then \<exists>w'. main DEBUG env FILE w = Some (Inr (- 1), w') \<and>
                 cerr w' = cerr w @ ''Failed to initialize GLFW'' @ endl \<and>
                 cout w' = cout w \<and>
                 calls w' = calls w @ [EvInt GlfwInit 0]
       else
         let (u, w2) = call_void env (GlfwWindowHint GLFW_CONTEXT_VERSION_MAJOR 3) w1;
             (u, w3) = call_void env (GlfwWindowHint GLFW_CONTEXT_VERSION_MINOR 3) w2;
             (u, w4) = call_void env (GlfwWindowHint GLFW_OPENGL_PROFILE GLFW_OPENGL_CORE_PROFILE) w3;
             (u, w5) = call_void env (GlfwWindowHint GLFW_OPENGL_FORWARD_COMPAT (uint GL_TRUE)) w4;
             (window, w6) = glfwCreateWindow env 640 480 ''Modern OpenGL'' w5
         in window = None \<longrightarrow>
              (\<exists>w' description.
                 main DEBUG env FILE w = Some (Inr (- 1), w') \<and>
                 cerr w' = cerr w @ ''Failed to create GLFW window'' @ endl
                                 @ ''GLFW Error: '' @ description @ endl \<and>
                 cout w' = cout w \<and>
                 calls w' = calls w6 @ [EvStr GlfwGetError description, EvVoid GlfwTerminate]))"
proof -
  obtain ok w1 where 1: "call_int env GlfwInit w = (ok, w1)"
    by (cases "call_int env GlfwInit w")
  obtain u2 w2 where 2: "call_void env (GlfwWindowHint GLFW_CONTEXT_VERSION_MAJOR 3) w1 = (u2, w2)"
    by (cases "call_void env (GlfwWindowHint GLFW_CONTEXT_VERSION_MAJOR 3) w1")
  obtain u3 w3 where 3: "call_void env (GlfwWindowHint GLFW_CONTEXT_VERSION_MINOR 3) w2 = (u3, w3)"
    by (cases "call_void env (GlfwWindowHint GLFW_CONTEXT_VERSION_MINOR 3) w2")
  obtain u4 w4 where
    4: "call_void env (GlfwWindowHint GLFW_OPENGL_PROFILE GLFW_OPENGL_CORE_PROFILE) w3 = (u4, w4)"
    by (cases "call_void env (GlfwWindowHint GLFW_OPENGL_PROFILE GLFW_OPENGL_CORE_PROFILE) w3")
  obtain u5 w5 where
    5: "call_void env (GlfwWindowHint GLFW_OPENGL_FORWARD_COMPAT (uint GL_TRUE)) w4 = (u5, w5)"
    by (cases "call_void env (GlfwWindowHint GLFW_OPENGL_FORWARD_COMPAT (uint GL_TRUE)) w4")
  obtain window w6 where 6: "glfwCreateWindow env 640 480 ''Modern OpenGL'' w5 = (window, w6)"
    by (cases "glfwCreateWindow env 640 480 ''Modern OpenGL'' w5")
  note prefix = 1 2 3 4 5 6
  note logs = call_int_log[OF 1] call_void_log[OF 2] call_void_log[OF 3] call_void_log[OF 4]
    call_void_log[OF 5] glfwCreateWindow_log[OF 6]
  have no_glfw:
    "\<exists>w'. main DEBUG env FILE w = Some (Inr (- 1), w') \<and>
          cerr w' = cerr w @ ''Failed to initialize GLFW'' @ endl \<and>
          cout w' = cout w \<and>
          calls w' = calls w @ [EvInt GlfwInit 0]"
    if "ok = 0"
    using that 1 logs(1) by (simp add: main_def put_cerr_def)
  have no_window:
    "\<exists>w' description.
        main DEBUG env FILE w = Some (Inr (- 1), w') \<and>
        cerr w' = cerr w @ ''Failed to create GLFW window'' @ endl
                        @ ''GLFW Error: '' @ description @ endl \<and>
        cout w' = cout w \<and>
        calls w' = calls w6 @ [EvStr GlfwGetError description, EvVoid GlfwTerminate]"
    if ok: "ok \<noteq> 0" and none: "window = None"
  proof -
    let ?a = "put_cerr (''Failed to create GLFW window'' @ endl) w6"
    obtain description w7 where 7: "call_str env GlfwGetError ?a = (description, w7)"
      by (cases "call_str env GlfwGetError ?a")
    let ?b = "put_cerr (''GLFW Error: '' @ description @ endl) w7"
    obtain u8 w8 where 8: "call_void env GlfwTerminate ?b = (u8, w8)"
      by (cases "call_void env GlfwTerminate ?b")
    have m: "main DEBUG env FILE w = Some (Inr (- 1), w8)"
      using ok none prefix 7 8 by (simp add: main_def)
    have "cerr w8 = cerr w @ ''Failed to create GLFW window'' @ endl
                           @ ''GLFW Error: '' @ description @ endl"
      and "cout w8 = cout w"
      and "calls w8 = calls w6 @ [EvStr GlfwGetError description, EvVoid GlfwTerminate]"
      using logs call_str_log[OF 7] call_void_log[OF 8]
      by (simp_all add: put_cerr_def)
    with m show ?thesis by blast
  qed
  show ?thesis
    using no_glfw no_window by (simp add: prefix)
qed

theorem main_startup_failure_report_witness:
  "(\<exists>w'. main True sim_env ''main.cpp'' (start (sim_start\<lparr>glfw_ok := False\<rparr>)) =
            Some (Inr (- 1), w') \<and>
          cerr w' = ''Failed to initialize GLFW'' @ endl \<and>
          calls w' = [EvInt GlfwInit 0]) \<and>
   (\<exists>w' description.
          main True sim_env ''main.cpp'' (start (sim_start\<lparr>window_ok := False\<rparr>)) =
            Some (Inr (- 1), w') \<and>
          cerr w' = ''Failed to create GLFW window'' @ endl @ ''GLFW Error: '' @ description @ endl)"
proof -
  have a: "\<exists>w'. main True sim_env ''main.cpp'' (start (sim_start\<lparr>glfw_ok := False\<rparr>)) =
             Some (Inr (- 1), w') \<and>
           cerr w' = ''Failed to initialize GLFW'' @ endl \<and>
           calls w' = [EvInt GlfwInit 0]"
    using main_startup_failure_report
      [of sim_env "start (sim_start\<lparr>glfw_ok := False\<rparr>)" True "''main.cpp''"]
    by (simp add: call_int_def sim_env_def sim_int_def sim_start_def start_def) blast
  have b: "\<exists>w' description.
             main True sim_env ''main.cpp'' (start (sim_start\<lparr>window_ok := False\<rparr>)) =
               Some (Inr (- 1), w') \<and>
             cerr w' = ''Failed to create GLFW window'' @ endl @ ''GLFW Error: '' @ description @ endl"
    using main_startup_failure_report
      [of sim_env "start (sim_start\<lparr>window_ok := False\<rparr>)" True "''main.cpp''"]
    by (simp add: call_defs sim_env_def sim_int_def sim_void_def sim_window_def sim_start_def
        start_def) blast
  from a b show ?thesis by blast
qed

end
